theory Spec2Isabelle
  imports Main
begin

section \<open>JavaScript values used by the bundler core\<close>

text \<open>
  The numbers the modelled code computes with are integers, the two infinities (the
  start values of a minimum/maximum search) and \<open>NaN\<close> (the poisoned counter of
  \<open>needCalls\<close>). Comparison and addition follow IEEE 754 on these values: every
  comparison with \<open>NaN\<close> is false.
\<close>

datatype jsnum = NaN | NegInfinity | Finite int | PosInfinity

fun js_less :: "jsnum \<Rightarrow> jsnum \<Rightarrow> bool" where
  "js_less NaN b = False"
| "js_less a NaN = False"
| "js_less PosInfinity b = False"
| "js_less a NegInfinity = False"
| "js_less NegInfinity b = True"
| "js_less (Finite a) (Finite b) = (a < b)"
| "js_less (Finite a) PosInfinity = True"

fun js_strict_eq :: "jsnum \<Rightarrow> jsnum \<Rightarrow> bool" where
  "js_strict_eq NaN b = False"
| "js_strict_eq a NaN = False"
| "js_strict_eq a b = (a = b)"

fun js_add :: "jsnum \<Rightarrow> jsnum \<Rightarrow> jsnum" where
  "js_add NaN b = NaN"
| "js_add a NaN = NaN"
| "js_add PosInfinity NegInfinity = NaN"
| "js_add NegInfinity PosInfinity = NaN"
| "js_add PosInfinity b = PosInfinity"
| "js_add a PosInfinity = PosInfinity"
| "js_add NegInfinity b = NegInfinity"
| "js_add a NegInfinity = NegInfinity"
| "js_add (Finite a) (Finite b) = Finite (a + b)"

definition digitChar :: "nat \<Rightarrow> char" where
  "digitChar d = char_of (48 + d)"

function showNat :: "nat \<Rightarrow> string" where
  "showNat n = (if n < 10 then [digitChar n] else showNat (n div 10) @ [digitChar (n mod 10)])"
  by pat_completeness auto
termination
  by (relation "measure (\<lambda>n. n)") auto

definition showInt :: "int \<Rightarrow> string" where
  "showInt i = (if i < 0 then CHR ''-'' # showNat (nat (- i)) else showNat (nat i))"

text \<open>
  \<open>"" + x\<close> for a number \<open>x\<close>. The decimal form is JavaScript's for integers of
  magnitude below \<open>10^21\<close>, which covers every module id.
\<close>

fun js_toString :: "jsnum \<Rightarrow> string" where
  "js_toString NaN = ''NaN''"
| "js_toString NegInfinity = ''-Infinity''"
| "js_toString PosInfinity = ''Infinity''"
| "js_toString (Finite i) = showInt i"

definition nl :: string where
  "nl = [CHR 0x0A]"

definition tab :: string where
  "tab = [CHR 0x09]"

section \<open>Template\<close>

subsection \<open>\<open>Template.numberToIdentifier\<close>\<close>








subsection \<open>\<open>Template.getModulesArrayBounds\<close> and \<open>Template.renderChunkModules\<close>\<close>

text \<open>A module id is a number or a string (\<open>typeof moduleId !== "number"\<close> tells them apart).\<close>

datatype moduleId = NumId int | StrId string

fun idToString :: "moduleId \<Rightarrow> string" where
  "idToString (NumId i) = showInt i"
| "idToString (StrId s) = s"

text \<open>The elements \<open>{id, source}\<close> of \<open>allModules\<close>.\<close>

record renderedModule =
  id' :: moduleId
  source :: string

text \<open>
  The \<open>for\<close> loop of \<open>getModulesArrayBounds\<close> over the pair \<open>(maxId, minId)\<close>; \<open>None\<close>
  is the early \<open>return false\<close> at the first id that is not a number.
\<close>

fun boundsLoop :: "moduleId list \<Rightarrow> jsnum \<times> jsnum \<Rightarrow> (jsnum \<times> jsnum) option" where
  "boundsLoop [] acc = Some acc"
| "boundsLoop (StrId s # ms) acc = None"
| "boundsLoop (NumId i # ms) (maxId, minId) =
     boundsLoop ms
       (if js_less maxId (Finite i) then Finite i else maxId,
        if js_less (Finite i) minId then Finite i else minId)"

definition getModulesArrayBounds :: "renderedModule list \<Rightarrow> (jsnum \<times> jsnum) option" where
  "getModulesArrayBounds modules =
     (case boundsLoop (map id' modules) (NegInfinity, PosInfinity) of
        None \<Rightarrow> None
      | Some (maxId, minId0) \<Rightarrow>
          let minId = (if js_less minId0 (Finite (16 + int (length (js_toString minId0))))
                       then Finite 0 else minId0);
              objectOverhead =
                foldl (\<lambda>a b. a + b) (- 1)
                  (map (\<lambda>m. int (length (idToString (id' m))) + 2) modules);
              arrayOverhead =
                (if js_strict_eq minId (Finite 0) then maxId
                 else js_add (Finite (16 + int (length (js_toString minId)))) maxId)
          in if js_less arrayOverhead (Finite objectOverhead) then Some (minId, maxId)
             else None)"

text \<open>
  \<open>for (let idx = minId; idx <= maxId; idx++)\<close>. The only bounds that are not finite are
  \<open>[Infinity, -Infinity]\<close>, for which the loop body never runs.
\<close>

fun idxRange :: "jsnum \<Rightarrow> jsnum \<Rightarrow> int list" where
  "idxRange (Finite lo) (Finite hi) = [lo..hi]"
| "idxRange a b = []"

text \<open>\<open>modules.get(idx)\<close> on the \<open>Map\<close> filled in list order: the last entry with that id.\<close>

definition getById :: "renderedModule list \<Rightarrow> int \<Rightarrow> renderedModule option" where
  "getById allModules idx = find (\<lambda>m. id' m = NumId idx) (rev allModules)"

text \<open>The pieces added to the \<open>ConcatSource\<close>, in order, for the array encoding.\<close>

definition renderArray :: "jsnum \<Rightarrow> jsnum \<Rightarrow> renderedModule list \<Rightarrow> string \<Rightarrow> string list" where
  "renderArray minId maxId allModules prefix =
     (if minId \<noteq> Finite 0 then [''Array('' @ js_toString minId @ '').concat(''] else [])
     @ [''['' @ nl]
     @ concat (map (\<lambda>idx.
          (if Finite idx \<noteq> minId then ['','' @ nl] else [])
          @ [''/* '' @ showInt idx @ '' */'']
          @ (case getById allModules idx of
               Some m \<Rightarrow> [nl, source m]
             | None \<Rightarrow> [])) (idxRange minId maxId))
     @ [nl @ prefix @ '']'']
     @ (if minId \<noteq> Finite 0 then ['')''] else [])"

text \<open>The pieces for the object encoding; \<open>i\<close> is the loop index of the first element.\<close>

fun renderObjectEntries ::
  "(moduleId \<Rightarrow> string) \<Rightarrow> nat \<Rightarrow> renderedModule list \<Rightarrow> string list" where
  "renderObjectEntries stringify i [] = []"
| "renderObjectEntries stringify i (m # ms) =
     (if i \<noteq> 0 then ['','' @ nl] else [])
     @ [nl @ ''/***/ '' @ stringify (id' m) @ '':'' @ nl, source m]
     @ renderObjectEntries stringify (Suc i) ms"

definition renderObject ::
  "(moduleId \<Rightarrow> string) \<Rightarrow> renderedModule list \<Rightarrow> string \<Rightarrow> string list" where
  "renderObject stringify allModules prefix =
     [''{'' @ nl] @ renderObjectEntries stringify 0 allModules @ [nl @ nl @ prefix @ ''}'']"

text \<open>
  \<open>Template.renderChunkModules\<close>. Parameters stand for what lies outside the class:
  \<open>removedModules\<close> is \<open>chunk.removedModules\<close> when the chunk is a \<open>HotUpdateChunk\<close>
  (\<open>None\<close> otherwise), \<open>sortIds\<close> is \<open>sort(compareIds)\<close>, \<open>getModuleId\<close> is the chunk
  graph's id assignment, \<open>stringify\<close> is \<open>JSON.stringify\<close> on an id, and \<open>renderModule\<close>
  gives a module's source or nothing (then the text \<open>false\<close> is used). The result
  \<open>None\<close> is the \<open>return null\<close> of the source.
\<close>

definition allModulesOf ::
  "moduleId list option \<Rightarrow> (moduleId list \<Rightarrow> moduleId list) \<Rightarrow> ('m \<Rightarrow> moduleId)
    \<Rightarrow> 'm list \<Rightarrow> ('m \<Rightarrow> string option) \<Rightarrow> renderedModule list" where
  "allModulesOf removedModules sortIds getModuleId modules renderModule =
     map (\<lambda>m. \<lparr>id' = getModuleId m,
                source = (case renderModule m of None \<Rightarrow> ''false'' | Some s \<Rightarrow> s)\<rparr>)
       modules
     @ (case removedModules of
          None \<Rightarrow> []
        | Some r \<Rightarrow>
            if r \<noteq> [] then map (\<lambda>i. \<lparr>id' = i, source = ''false''\<rparr>) (sortIds r)
            else [])"

definition renderChunkModules ::
  "moduleId list option \<Rightarrow> (moduleId list \<Rightarrow> moduleId list) \<Rightarrow> ('m \<Rightarrow> moduleId)
    \<Rightarrow> (moduleId \<Rightarrow> string) \<Rightarrow> 'm list \<Rightarrow> ('m \<Rightarrow> string option) \<Rightarrow> string
    \<Rightarrow> string list option" where
  "renderChunkModules removedModules sortIds getModuleId stringify modules renderModule prefix =
     (if modules = [] \<and> (case removedModules of None \<Rightarrow> True | Some r \<Rightarrow> r = []) then None
      else
        let allModules = allModulesOf removedModules sortIds getModuleId modules renderModule
        in case getModulesArrayBounds allModules of
             Some (minId, maxId) \<Rightarrow> Some (renderArray minId maxId allModules prefix)
           | None \<Rightarrow> Some (renderObject stringify allModules prefix))"



section \<open>NormalModuleFactory\<close>

subsection \<open>\<open>needCalls\<close>\<close>

text \<open>
  The closure returned by \<open>needCalls(times, callback)\<close> owns the counter \<open>times\<close>. One
  invocation with argument \<open>err\<close> (\<open>None\<close> for a missing or null argument) yields the new
  counter and, when \<open>callback\<close> is invoked, the argument passed to it.
\<close>

fun js_dec :: "jsnum \<Rightarrow> jsnum" where
  "js_dec (Finite n) = Finite (n - 1)"
| "js_dec x = x"

definition needCallsStep :: "jsnum \<Rightarrow> 'e option \<Rightarrow> jsnum \<times> 'e option option" where
  "needCallsStep n err =
     (let t' = js_dec n in
      if js_strict_eq t' (Finite 0) then (t', Some err)
      else if err \<noteq> None \<and> js_less (Finite 0) t' then (NaN, Some err)
      else (t', None))"

text \<open>
  A sequence of invocations of one closure: the final counter and the arguments of the
  invocations of \<open>callback\<close>, in order.
\<close>

fun needCallsRun :: "jsnum \<Rightarrow> 'e option list \<Rightarrow> jsnum \<times> 'e option list" where
  "needCallsRun n [] = (n, [])"
| "needCallsRun n (err # errs) =
     (case needCallsStep n err of
        (t', fired) \<Rightarrow>
          (case needCallsRun t' errs of
             (t, calls) \<Rightarrow> (t, (case fired of None \<Rightarrow> [] | Some a \<Rightarrow> [a]) @ calls)))"

definition needCalls :: "int \<Rightarrow> 'e option list \<Rightarrow> 'e option list" where
  "needCalls n errs = snd (needCallsRun (Finite n) errs)"


subsection \<open>Values, errors and outcomes\<close>

text \<open>
  Dynamically typed values: loader options, rule settings and the keys of the parser and
  generator caches. An object is known by its reference \<open>VObj r\<close>; two objects are the
  same object exactly when their references are equal.
\<close>

datatype jsval = VUndefined | VNull | VBool bool | VNum int | VStr string | VObj nat

fun truthy :: "jsval \<Rightarrow> bool" where
  "truthy VUndefined = False"
| "truthy VNull = False"
| "truthy (VBool b) = b"
| "truthy (VNum n) = (n \<noteq> 0)"
| "truthy (VStr s) = (s \<noteq> [])"
| "truthy (VObj r) = True"

text \<open>A value inside a template string.\<close>

fun toTemplateString :: "jsval \<Rightarrow> string" where
  "toTemplateString VUndefined = ''undefined''"
| "toTemplateString VNull = ''null''"
| "toTemplateString (VBool b) = (if b then ''true'' else ''false'')"
| "toTemplateString (VNum n) = showInt n"
| "toTemplateString (VStr s) = s"
| "toTemplateString (VObj r) = ''[object Object]''"

datatype error = Error (message: string)

text \<open>
  How an asynchronous step ends: the error is handed to the callback, an exception
  escapes, or the step succeeds.
\<close>

datatype 'a outcome = Failed error | Threw error | Result 'a

definition apos :: string where
  "apos = [CHR 0x27]"

subsection \<open>Loader requests\<close>

record loaderItem =
  loader :: string
  options :: jsval
  ident :: "string option"

definition loaderToIdent :: "(nat \<Rightarrow> string) \<Rightarrow> loaderItem \<Rightarrow> error + string" where
  "loaderToIdent stringify data =
     (if \<not> truthy (options data) then Inr (loader data)
      else case options data of
          VStr s \<Rightarrow> Inr (loader data @ ''?'' @ s)
        | VObj r \<Rightarrow>
            (if (case ident data of None \<Rightarrow> False | Some i \<Rightarrow> i \<noteq> [])
             then Inr (loader data @ ''??'' @ the (ident data))
             else Inr (loader data @ ''?'' @ stringify r))
        | _ \<Rightarrow> Inl (Error ''loader options must be string or object''))"

fun stringifyLoadersAndResource ::
  "(nat \<Rightarrow> string) \<Rightarrow> loaderItem list \<Rightarrow> string \<Rightarrow> error + string" where
  "stringifyLoadersAndResource stringify [] resource = Inr resource"
| "stringifyLoadersAndResource stringify (l # ls) resource =
     (case loaderToIdent stringify l of
        Inl e \<Rightarrow> Inl e
      | Inr s \<Rightarrow>
          (case stringifyLoadersAndResource stringify ls resource of
             Inl e \<Rightarrow> Inl e
           | Inr rest \<Rightarrow> Inr (s @ ''!'' @ rest)))"

definition identToLoaderRequest :: "string \<Rightarrow> loaderItem" where
  "identToLoaderRequest resultString =
     (if CHR ''?'' \<in> set resultString
      then \<lparr>loader = takeWhile (\<lambda>c. c \<noteq> CHR ''?'') resultString,
            options = VStr (tl (dropWhile (\<lambda>c. c \<noteq> CHR ''?'') resultString)),
            ident = None\<rparr>
      else \<lparr>loader = resultString, options = VUndefined, ident = None\<rparr>)"

subsection \<open>\<open>resolveRequestArray\<close>\<close>

record contextInfo =
  issuer :: "string option"
  compiler :: "string option"

text \<open>
  A resolver maps the context information, the base context and a request to a path or
  an error. It is an external collaborator; the model takes it as a function, so a
  resolution completes before the next one starts.
\<close>

type_synonym resolver = "contextInfo \<Rightarrow> string \<Rightarrow> string \<Rightarrow> error + string"

definition endsWith :: "string \<Rightarrow> string \<Rightarrow> bool" where
  "endsWith s str \<longleftrightarrow> length s \<le> length str \<and> drop (length str - length s) str = s"

definition breakingChange :: "string \<Rightarrow> string" where
  "breakingChange name =
     nl @ ''BREAKING CHANGE: It'' @ apos
        @ ''s no longer allowed to omit the '' @ apos @ ''-loader'' @ apos
        @ '' suffix when using loaders.'' @ nl
     @ ''                 You need to specify '' @ apos @ name @ ''-loader'' @ apos
        @ '' instead of '' @ apos @ name @ apos @ '','' @ nl
     @ ''                 see https://webpack.js.org/migrate/3/#automatic-loader-module-name-extension-removed''"

text \<open>
  The iterator passed to \<open>asyncLib.map\<close>: the requests sent to the resolver, in order,
  and what is handed to the iterator's callback.
\<close>

definition resolveLoader ::
  "resolver \<Rightarrow> contextInfo \<Rightarrow> string \<Rightarrow> loaderItem \<Rightarrow> string list \<times> (error + loaderItem)" where
  "resolveLoader resolve ci ctx item =
     (case resolve ci ctx (loader item) of
        Inl err \<Rightarrow>
          if CHR ''/'' \<notin> set (loader item) \<and> \<not> endsWith ''-loader'' (loader item)
          then (case resolve ci ctx (loader item @ ''-loader'') of
                  Inl err2 \<Rightarrow> ([loader item, loader item @ ''-loader''], Inl err)
                | Inr r \<Rightarrow>
                    ([loader item, loader item @ ''-loader''],
                     Inl (Error (message err @ breakingChange (loader item)))))
          else ([loader item], Inl err)
      | Inr result \<Rightarrow>
          (let parsedResult = identToLoaderRequest result in
           ([loader item],
            Inr \<lparr>loader = loader parsedResult,
                 options = (if options item = VUndefined then options parsedResult
                            else options item),
                 ident = (if options item = VUndefined then None else ident item)\<rparr>)))"

text \<open>
  \<open>asyncLib.map\<close> with an iterator that completes at once: every element is visited in
  order, and the final callback receives the first error or all the results.
\<close>

fun asyncMap ::
  "('a \<Rightarrow> string list \<times> (error + 'b)) \<Rightarrow> 'a list \<Rightarrow> string list \<times> (error + 'b list)" where
  "asyncMap f [] = ([], Inr [])"
| "asyncMap f (x # xs) =
     (case f x of
        (c, r) \<Rightarrow>
          (case asyncMap f xs of
             (cs, rs) \<Rightarrow>
               (c @ cs,
                case r of
                  Inl e \<Rightarrow> Inl e
                | Inr y \<Rightarrow> (case rs of Inl e \<Rightarrow> Inl e | Inr ys \<Rightarrow> Inr (y # ys)))))"

definition resolveRequestArray ::
  "resolver \<Rightarrow> contextInfo \<Rightarrow> string \<Rightarrow> loaderItem list
    \<Rightarrow> string list \<times> (error + loaderItem list)" where
  "resolveRequestArray resolve ci ctx array =
     (if array = [] then ([], Inr array)
      else asyncMap (resolveLoader resolve ci ctx) array)"

subsection \<open>\<open>getParser\<close>, \<open>createParser\<close>, \<open>getGenerator\<close>, \<open>createGenerator\<close>\<close>

text \<open>
  \<open>parserCache\<close> and \<open>generatorCache\<close> are maps from the module type to a \<open>WeakMap\<close>
  from options objects to instances. The two pairs of methods differ in names only, so
  one state and one pair of functions model both: \<open>cache\<close> is the map of weak maps,
  \<open>created\<close> counts the instances constructed so far (a new instance is a new object,
  numbered by the count), and \<open>createCalls\<close> records every execution of the create
  method with its type and options.
\<close>

record typeCache =
  cache :: "jsval \<Rightarrow> (nat \<Rightarrow> nat option) option"
  created :: nat
  createCalls :: "(jsval \<times> jsval) list"

text \<open>The module-level constant \<open>EMPTY_OBJECT\<close>: one object, with one reference.\<close>

definition EMPTY_OBJECT :: nat where
  "EMPTY_OBJECT = 0"

text \<open>\<open>WeakMap.get\<close> never finds a key that is not an object; \<open>WeakMap.set\<close> rejects one.\<close>

fun weakGet :: "(nat \<Rightarrow> nat option) \<Rightarrow> jsval \<Rightarrow> nat option" where
  "weakGet m (VObj r) = m r"
| "weakGet m k = None"

fun weakSet :: "(nat \<Rightarrow> nat option) \<Rightarrow> jsval \<Rightarrow> nat \<Rightarrow> error + (nat \<Rightarrow> nat option)" where
  "weakSet m (VObj r) v = Inr (m(r \<mapsto> v))"
| "weakSet m k v = Inl (Error ''Invalid value used as weak map key'')"

text \<open>
  \<open>createParser\<close> and \<open>createGenerator\<close>. Whether a plugin has tapped the create hook of
  the type and returns an instance for these options is the parameter \<open>registered\<close>;
  \<open>what\<close> is the word \<open>parser\<close> or \<open>generator\<close> of the error message. An \<open>Inl\<close> result
  is a thrown exception.
\<close>

definition createInstance ::
  "string \<Rightarrow> (jsval \<Rightarrow> jsval \<Rightarrow> bool) \<Rightarrow> typeCache \<Rightarrow> jsval \<Rightarrow> jsval
    \<Rightarrow> (error + nat) \<times> typeCache" where
  "createInstance what registered s type' opts =
     (let s1 = s\<lparr>createCalls := createCalls s @ [(type', opts)]\<rparr> in
      if registered type' opts
      then (Inr (created s1), s1\<lparr>created := Suc (created s1)\<rparr>)
      else (Inl (Error (''No '' @ what @ '' registered for '' @ toTemplateString type')), s1))"

definition getInstance ::
  "string \<Rightarrow> (jsval \<Rightarrow> jsval \<Rightarrow> bool) \<Rightarrow> typeCache \<Rightarrow> jsval \<Rightarrow> jsval
    \<Rightarrow> (error + nat) \<times> typeCache" where
  "getInstance what registered s type' opts0 =
     (let opts = (if opts0 = VUndefined then VObj EMPTY_OBJECT else opts0);
          s1 = (case cache s type' of
                  None \<Rightarrow> s\<lparr>cache := (cache s)(type' \<mapsto> Map.empty)\<rparr>
                | Some c \<Rightarrow> s);
          c = (case cache s type' of None \<Rightarrow> Map.empty | Some c \<Rightarrow> c)
      in case weakGet c opts of
           Some inst \<Rightarrow> (Inr inst, s1)
         | None \<Rightarrow>
             (case createInstance what registered s1 type' opts of
                (Inl e, s2) \<Rightarrow> (Inl e, s2)
              | (Inr inst, s2) \<Rightarrow>
                  (case weakSet c opts inst of
                     Inl e \<Rightarrow> (Inl e, s2)
                   | Inr c' \<Rightarrow> (Inr inst, s2\<lparr>cache := (cache s2)(type' \<mapsto> c')\<rparr>))))"

text \<open>The factory owns one cache for parsers and one for generators.\<close>

record factory =
  parsers :: typeCache
  generators :: typeCache

definition emptyCache :: typeCache where
  "emptyCache = \<lparr>cache = Map.empty, created = 0, createCalls = []\<rparr>"

definition newFactory :: factory where
  "newFactory = \<lparr>parsers = emptyCache, generators = emptyCache\<rparr>"

text \<open>
  The registrations of the parser hooks and of the generator hooks, as the plugins left
  them.
\<close>

record registrations =
  parserFor :: "jsval \<Rightarrow> jsval \<Rightarrow> bool"
  generatorFor :: "jsval \<Rightarrow> jsval \<Rightarrow> bool"

definition getParser ::
  "registrations \<Rightarrow> factory \<Rightarrow> jsval \<Rightarrow> jsval \<Rightarrow> (error + nat) \<times> factory" where
  "getParser reg f type' parserOptions =
     (case getInstance ''parser'' (parserFor reg) (parsers f) type' parserOptions of
        (r, s) \<Rightarrow> (r, f\<lparr>parsers := s\<rparr>))"

definition getGenerator ::
  "registrations \<Rightarrow> factory \<Rightarrow> jsval \<Rightarrow> jsval \<Rightarrow> (error + nat) \<times> factory" where
  "getGenerator reg f type' generatorOptions =
     (case getInstance ''generator'' (generatorFor reg) (generators f) type' generatorOptions of
        (r, s) \<Rightarrow> (r, f\<lparr>generators := s\<rparr>))"







subsection \<open>The \<open>resolve\<close> hook of the factory\<close>

text \<open>\<open>str.charCodeAt(i)\<close>; \<open>None\<close> is \<open>NaN\<close>, the result beyond the end of the string.\<close>

definition charCodeAt :: "string \<Rightarrow> nat \<Rightarrow> nat option" where
  "charCodeAt s i = (if i < length s then Some (of_char (s ! i)) else None)"

text \<open>
  \<open>MATCH_RESOURCE_REGEX.exec(request)\<close> for \<open>/^([^!]+)!=!/\<close>: the whole match and the
  group. The group is the longest prefix without \<open>!\<close>, so there is at most one match.
\<close>

definition matchResourceMatch :: "string \<Rightarrow> (string \<times> string) option" where
  "matchResourceMatch request =
     (let m = takeWhile (\<lambda>c. c \<noteq> CHR ''!'') request;
          rest = dropWhile (\<lambda>c. c \<noteq> CHR ''!'') request
      in if m \<noteq> [] \<and> take 3 rest = ''!=!'' then Some (m @ ''!=!'', m) else None)"

text \<open>
  \<open>str.split(/!+/)\<close>: the pieces between maximal runs of \<open>!\<close>; \<open>cur\<close> is the piece
  being read. The result is never empty.
\<close>

fun splitBangs :: "string \<Rightarrow> string \<Rightarrow> string list" where
  "splitBangs cur [] = [cur]"
| "splitBangs cur (c # cs) =
     (if c = CHR ''!''
      then (case cs of
              [] \<Rightarrow> cur # splitBangs [] cs
            | d # ds \<Rightarrow> if d = CHR ''!'' then splitBangs cur cs else cur # splitBangs [] cs)
      else splitBangs (cur @ [c]) cs)"

text \<open>\<open>requestWithoutMatchResource\<close>: the request behind the match, if there is one.\<close>

definition withoutMatchResource :: "string \<Rightarrow> string" where
  "withoutMatchResource request =
     (case matchResourceMatch request of
        None \<Rightarrow> request
      | Some (whole, m) \<Rightarrow> drop (length whole) request)"

record parsedRequest =
  matchResource :: "string option"
  noPreAutoLoaders :: bool
  noAutoLoaders :: bool
  noPrePostAutoLoaders :: bool
  elements :: "loaderItem list"
  unresolvedResource :: string

text \<open>
  The first part of the hook, up to \<open>elements\<close>. \<open>join\<close> is \<open>join(this.fs, _, _)\<close> of
  \<open>util/fs\<close>.
\<close>

definition parseRequest :: "(string \<Rightarrow> string \<Rightarrow> string) \<Rightarrow> string \<Rightarrow> string \<Rightarrow> parsedRequest" where
  "parseRequest join ctx request =
     (let matchResourceMatch = matchResourceMatch request;
          matchResource =
            (case matchResourceMatch of
               None \<Rightarrow> None
             | Some (whole, m) \<Rightarrow>
                 Some (if charCodeAt m 0 = Some 46
                          \<and> (charCodeAt m 1 = Some 47
                              \<or> (charCodeAt m 1 = Some 46 \<and> charCodeAt m 2 = Some 47))
                       then join ctx m else m));
          requestWithoutMatchResource = withoutMatchResource request;
          firstChar = charCodeAt requestWithoutMatchResource 0;
          secondChar = charCodeAt requestWithoutMatchResource 1;
          noPreAutoLoaders = (firstChar = Some 45 \<and> secondChar = Some 33);
          noAutoLoaders = (noPreAutoLoaders \<or> firstChar = Some 33);
          noPrePostAutoLoaders = (firstChar = Some 33 \<and> secondChar = Some 33);
          rawElements =
            splitBangs []
              (drop (if noPreAutoLoaders \<or> noPrePostAutoLoaders then 2
                     else if noAutoLoaders then 1 else 0)
                 requestWithoutMatchResource)
      in \<lparr>matchResource = matchResource,
          noPreAutoLoaders = noPreAutoLoaders,
          noAutoLoaders = noAutoLoaders,
          noPrePostAutoLoaders = noPrePostAutoLoaders,
          elements = map identToLoaderRequest (butlast rawElements),
          unresolvedResource = last rawElements\<rparr>)"

text \<open>
  An element of the result of \<open>ruleSet.exec\<close>: an object \<open>{type, value}\<close> whose type is
  \<open>use\<close>, \<open>use-post\<close> or \<open>use-pre\<close> with a loader as value, or the name of a setting.
\<close>

datatype effect = Use loaderItem | UsePost loaderItem | UsePre loaderItem | Setting string jsval

text \<open>
  The loop over the rule effects. The accumulator holds \<open>useLoadersPost\<close>,
  \<open>useLoaders\<close>, \<open>useLoadersPre\<close> and \<open>settings\<close>; \<open>merge\<close> is \<open>cachedCleverMerge\<close>.
\<close>

fun collectEffects ::
  "(nat \<Rightarrow> nat \<Rightarrow> nat) \<Rightarrow> parsedRequest \<Rightarrow> effect list
    \<Rightarrow> loaderItem list \<times> loaderItem list \<times> loaderItem list \<times> (string \<Rightarrow> jsval)
    \<Rightarrow> loaderItem list \<times> loaderItem list \<times> loaderItem list \<times> (string \<Rightarrow> jsval)" where
  "collectEffects merge p [] acc = acc"
| "collectEffects merge p (Use v # rs) (useLoadersPost, useLoaders, useLoadersPre, settings) =
     collectEffects merge p rs
       (useLoadersPost,
        (if \<not> noAutoLoaders p \<and> \<not> noPrePostAutoLoaders p then useLoaders @ [v] else useLoaders),
        useLoadersPre, settings)"
| "collectEffects merge p (UsePost v # rs) (useLoadersPost, useLoaders, useLoadersPre, settings) =
     collectEffects merge p rs
       ((if \<not> noPrePostAutoLoaders p then useLoadersPost @ [v] else useLoadersPost),
        useLoaders, useLoadersPre, settings)"
| "collectEffects merge p (UsePre v # rs) (useLoadersPost, useLoaders, useLoadersPre, settings) =
     collectEffects merge p rs
       (useLoadersPost, useLoaders,
        (if \<not> noPreAutoLoaders p \<and> \<not> noPrePostAutoLoaders p then useLoadersPre @ [v]
         else useLoadersPre),
        settings)"
| "collectEffects merge p (Setting t v # rs) (useLoadersPost, useLoaders, useLoadersPre, settings) =
     collectEffects merge p rs
       (useLoadersPost, useLoaders, useLoadersPre,
        (case (v, settings t) of
           (VObj new, VObj old) \<Rightarrow> settings(t := VObj (merge old new))
         | _ \<Rightarrow> settings(t := v)))"

text \<open>The loop that translates option idents; an error is handed to the callback.\<close>

fun translateIdents :: "(string \<Rightarrow> jsval) \<Rightarrow> loaderItem list \<Rightarrow> error + loaderItem list" where
  "translateIdents references [] = Inr []"
| "translateIdents references (item # items) =
     (let translated =
        (case options item of
           VStr (c # ident') \<Rightarrow>
             if c = CHR ''?''
             then (if ident' = ''[[missing ident]]''
                   then Inl (Error (''No ident is provided by referenced loader. ''
                          @ ''When using a function for Rule.use in config you need to ''
                          @ ''provide an '' @ apos @ ''ident'' @ apos
                          @ '' property for referenced loader options.''))
                   else if references ident' = VUndefined
                   then Inl (Error ''Invalid ident is provided by referenced loader'')
                   else Inr (item\<lparr>options := references ident', ident := Some ident'\<rparr>))
             else Inr item
         | _ \<Rightarrow> Inr item)
      in case translated of
           Inl e \<Rightarrow> Inl e
         | Inr item' \<Rightarrow>
             (case translateIdents references items of
                Inl e \<Rightarrow> Inl e
              | Inr items' \<Rightarrow> Inr (item' # items')))"

text \<open>\<open>resolvedResource\<close> is a path, or \<open>false\<close> for an ignored request.\<close>

datatype resolved = Ignored | Resource string

text \<open>
  What surrounds the factory: \<open>join\<close> of \<open>util/fs\<close>, the two resolvers, the references
  and the \<open>exec\<close> method of the compiled rule set, \<open>cachedCleverMerge\<close>,
  \<open>JSON.stringify\<close> on an options object, the parser and generator hooks, and
  \<open>this.context\<close>.
\<close>

record environment =
  join :: "string \<Rightarrow> string \<Rightarrow> string"
  loaderResolver :: resolver
  normalResolver :: "contextInfo \<Rightarrow> string \<Rightarrow> string \<Rightarrow> error + resolved \<times> jsval"
  references :: "string \<Rightarrow> jsval"
  ruleSetExec :: "string \<Rightarrow> string \<Rightarrow> string \<Rightarrow> string option \<Rightarrow> string option \<Rightarrow> effect list"
  cachedCleverMerge :: "nat \<Rightarrow> nat \<Rightarrow> nat"
  stringifyOptions :: "nat \<Rightarrow> string"
  hooks :: registrations
  factoryContext :: string

record createData =
  request :: string
  userRequest :: string
  rawRequest :: string
  loaders :: "loaderItem list"
  resource :: string
  createdMatchResource :: "string option"
  resourceResolveData :: jsval
  settings :: "string \<Rightarrow> jsval"
  type' :: jsval
  parser :: nat
  generator :: nat
  resolveOptions :: jsval

text \<open>
  The hook ends with a \<open>RawModule\<close> for an ignored resource (its three constructor
  arguments are kept), or with the create data filled in.
\<close>

datatype resolveResult = RawModule string string string | Created createData

text \<open>
  The outcome of a hook also has the case that its callback is never invoked.
\<close>

datatype 'a called = Pending | Called "'a outcome"

definition errOf :: "error + 'a \<Rightarrow> error option" where
  "errOf r = (case r of Inl e \<Rightarrow> Some e | Inr x \<Rightarrow> None)"

text \<open>
  The variable a resolution callback assigns its result to; it is read only when no
  error was reported.
\<close>

definition resultOf :: "error + 'a list \<Rightarrow> 'a list" where
  "resultOf r = (case r of Inl e \<Rightarrow> [] | Inr xs \<Rightarrow> xs)"

text \<open>\<open>resource.replace(/\?.*/, "")\<close>: from the first \<open>?\<close> to the end of its line.\<close>

definition stripQuery :: "string \<Rightarrow> string" where
  "stripQuery s =
     takeWhile (\<lambda>c. c \<noteq> CHR ''?'') s
     @ dropWhile (\<lambda>c. c \<noteq> CHR 0x0A \<and> c \<noteq> CHR 0x0D) (dropWhile (\<lambda>c. c \<noteq> CHR ''?'') s)"

text \<open>The callback of the inner \<open>needCalls(3, ...)\<close>, once it is invoked without error.\<close>

definition assignCreateData ::
  "environment \<Rightarrow> factory \<Rightarrow> string \<Rightarrow> parsedRequest \<Rightarrow> loaderItem list \<Rightarrow> string \<Rightarrow> jsval
    \<Rightarrow> string \<Rightarrow> (string \<Rightarrow> jsval) \<Rightarrow> loaderItem list \<Rightarrow> loaderItem list \<Rightarrow> loaderItem list
    \<Rightarrow> resolveResult outcome \<times> factory" where
  "assignCreateData env f rawReq p inlineLoaders res rrd userReq settings'
      postLoaders normalLoaders preLoaders =
     (let allLoaders =
            (case matchResource p of
               None \<Rightarrow> postLoaders @ inlineLoaders @ normalLoaders @ preLoaders
             | Some m \<Rightarrow> postLoaders @ normalLoaders @ inlineLoaders @ preLoaders);
          t = settings' ''type''
      in case stringifyLoadersAndResource (stringifyOptions env) allLoaders res of
           Inl e \<Rightarrow> (Threw e, f)
         | Inr req \<Rightarrow>
             (case getParser (hooks env) f t (settings' ''parser'') of
                (Inl e, f1) \<Rightarrow> (Threw e, f1)
              | (Inr parser', f1) \<Rightarrow>
                  (case getGenerator (hooks env) f1 t (settings' ''generator'') of
                     (Inl e, f2) \<Rightarrow> (Threw e, f2)
                   | (Inr generator', f2) \<Rightarrow>
                       (Result (Created
                          \<lparr>request = req,
                           userRequest = userReq,
                           rawRequest = rawReq,
                           loaders = allLoaders,
                           resource = res,
                           createdMatchResource = matchResource p,
                           resourceResolveData = rrd,
                           settings = settings',
                           type' = t,
                           parser = parser',
                           generator = generator',
                           resolveOptions = settings' ''resolve''\<rparr>), f2))))"

text \<open>The callback of the outer \<open>needCalls(2, ...)\<close>, once it is invoked without error.\<close>

definition continueResolve ::
  "environment \<Rightarrow> factory \<Rightarrow> contextInfo \<Rightarrow> string \<Rightarrow> parsedRequest \<Rightarrow> loaderItem list
    \<Rightarrow> resolved \<Rightarrow> jsval \<Rightarrow> resolveResult called \<times> factory" where
  "continueResolve env f ci rawReq p loaders0 resource0 rrd =
     (case translateIdents (references env) loaders0 of
        Inl e \<Rightarrow> (Called (Failed e), f)
      | Inr inlineLoaders \<Rightarrow>
          (case resource0 of
             Ignored \<Rightarrow>
               (Called (Result (RawModule ''/* (ignored) */'' (''ignored|'' @ rawReq)
                                  (rawReq @ '' (ignored)''))), f)
           | Resource res \<Rightarrow>
               (case stringifyLoadersAndResource (stringifyOptions env) inlineLoaders res of
                  Inl e \<Rightarrow> (Called (Threw e), f)
                | Inr str \<Rightarrow>
                    (let userReq =
                           (case matchResource p of None \<Rightarrow> [] | Some m \<Rightarrow> m @ ''!=!'') @ str;
                         resourcePath0 = (case matchResource p of None \<Rightarrow> res | Some m \<Rightarrow> m);
                         resourceQuery = dropWhile (\<lambda>c. c \<noteq> CHR ''?'') resourcePath0;
                         resourcePath = takeWhile (\<lambda>c. c \<noteq> CHR ''?'') resourcePath0;
                         result =
                           ruleSetExec env resourcePath
                             (case matchResource p of
                                None \<Rightarrow> resourcePath
                              | Some m \<Rightarrow> stripQuery res)
                             resourceQuery (issuer ci) (compiler ci)
                     in case collectEffects (cachedCleverMerge env) p result
                               ([], [], [], \<lambda>k. VUndefined) of
                          (useLoadersPost, useLoaders, useLoadersPre, settings') \<Rightarrow>
                            (let postR = snd (resolveRequestArray (loaderResolver env) ci
                                                (factoryContext env) useLoadersPost);
                                 normalR = snd (resolveRequestArray (loaderResolver env) ci
                                                  (factoryContext env) useLoaders);
                                 preR = snd (resolveRequestArray (loaderResolver env) ci
                                               (factoryContext env) useLoadersPre)
                             in case needCalls 3 [errOf postR, errOf normalR, errOf preR] of
                                  [] \<Rightarrow> (Pending, f)
                                | Some err # later \<Rightarrow> (Called (Failed err), f)
                                | None # later \<Rightarrow>
                                    (case assignCreateData env f rawReq p inlineLoaders res rrd
                                            userReq settings' (resultOf postR)
                                            (resultOf normalR) (resultOf preR) of
                                       (out, f') \<Rightarrow> (Called out, f')))))))"

text \<open>
  The handler tapped on \<open>hooks.resolve\<close>. The loaders of the request are resolved
  before its resource, so of two errors the loaders' is the one reported.
\<close>

definition resolveHook ::
  "environment \<Rightarrow> factory \<Rightarrow> contextInfo \<Rightarrow> string \<Rightarrow> string
    \<Rightarrow> resolveResult called \<times> factory" where
  "resolveHook env f ci ctx rawReq =
     (let p = parseRequest (join env) ctx rawReq;
          loadersR = snd (resolveRequestArray (loaderResolver env) ci ctx (elements p));
          resourceR =
            (if unresolvedResource p = [] \<or> charCodeAt (unresolvedResource p) 0 = Some 63
             then Inr (Resource (unresolvedResource p), VUndefined)
             else normalResolver env ci ctx (unresolvedResource p))
      in case needCalls 2 [errOf loadersR, errOf resourceR] of
           [] \<Rightarrow> (Pending, f)
         | Some err # later \<Rightarrow> (Called (Failed err), f)
         | None # later \<Rightarrow>
             (case resourceR of
                Inl e \<Rightarrow> (Pending, f)
              | Inr (resource0, rrd) \<Rightarrow>
                  continueResolve env f ci rawReq p (resultOf loadersR) resource0 rrd))"

text \<open>
  For statements about the hook: the loaders the rules contribute, by kind, and the rule
  effects matched for the resource and match resource of the create data.
\<close>

fun usePostOf :: "effect list \<Rightarrow> loaderItem list" where
  "usePostOf [] = []"
| "usePostOf (UsePost v # rs) = v # usePostOf rs"
| "usePostOf (r # rs) = usePostOf rs"

fun useOf :: "effect list \<Rightarrow> loaderItem list" where
  "useOf [] = []"
| "useOf (Use v # rs) = v # useOf rs"
| "useOf (r # rs) = useOf rs"

fun usePreOf :: "effect list \<Rightarrow> loaderItem list" where
  "usePreOf [] = []"
| "usePreOf (UsePre v # rs) = v # usePreOf rs"
| "usePreOf (r # rs) = usePreOf rs"

definition matchedEffects :: "environment \<Rightarrow> contextInfo \<Rightarrow> createData \<Rightarrow> effect list" where
  "matchedEffects env ci cd =
     (let path = (case createdMatchResource cd of None \<Rightarrow> resource cd | Some m \<Rightarrow> m) in
      ruleSetExec env (takeWhile (\<lambda>c. c \<noteq> CHR ''?'') path)
        (case createdMatchResource cd of
           None \<Rightarrow> takeWhile (\<lambda>c. c \<noteq> CHR ''?'') path
         | Some m \<Rightarrow> stripQuery (resource cd))
        (dropWhile (\<lambda>c. c \<noteq> CHR ''?'') path) (issuer ci) (compiler ci))"

definition loadersOf :: "resolveResult called \<times> factory \<Rightarrow> string list option" where
  "loadersOf r =
     (case fst r of
        Called (Result (Created cd)) \<Rightarrow> Some (map loader (loaders cd))
      | _ \<Rightarrow> None)"

text \<open>
  An example configuration: every loader \<open>x\<close> resolves to \<open>/l/x\<close>, every resource \<open>x\<close> to
  \<open>/src/x\<close>, and the rules match one post loader, one normal loader and one pre loader
  for every resource.
\<close>

definition exampleLoader :: "string \<Rightarrow> loaderItem" where
  "exampleLoader name = \<lparr>loader = name, options = VUndefined, ident = None\<rparr>"

definition exampleEnvironment :: environment where
  "exampleEnvironment =
     \<lparr>join = (\<lambda>a b. a @ ''/'' @ b),
      loaderResolver = (\<lambda>ci ctx r. Inr (''/l/'' @ r)),
      normalResolver = (\<lambda>ci ctx r. Inr (Resource (''/src/'' @ r), VUndefined)),
      references = (\<lambda>i. VUndefined),
      ruleSetExec = (\<lambda>res real query iss comp.
         [UsePost (exampleLoader ''post''), Use (exampleLoader ''normal''),
          UsePre (exampleLoader ''pre''), Setting ''type'' (VStr ''javascript/auto'')]),
      cachedCleverMerge = (\<lambda>a b. a + b),
      stringifyOptions = (\<lambda>r. ''{}''),
      hooks = \<lparr>parserFor = \<lambda>t opts. True, generatorFor = \<lambda>t opts. True\<rparr>,
      factoryContext = ''/root''\<rparr>"

definition exampleContextInfo :: contextInfo where
  "exampleContextInfo = \<lparr>issuer = None, compiler = None\<rparr>"

section \<open>Compiler\<close>

subsection \<open>\<open>run\<close>, \<open>watch\<close> and \<open>compile\<close>\<close>

text \<open>
  A compilation carries the module-level errors and warnings of one build; a \<open>Stats\<close>
  object is created from a compilation. Logging and the start and end times are left
  out.
\<close>

record compilation =
  errors :: "string list"
  warnings :: "string list"
  needAdditionalPass :: bool

record stats =
  statsCompilation :: compilation

record compiler =
  running :: bool
  watchMode :: bool

text \<open>
  The class \<open>ConcurrentCompilationError\<close> lies outside the sources; its instances are
  represented by one error value.
\<close>

definition ConcurrentCompilationError :: error where
  "ConcurrentCompilationError = Error ''ConcurrentCompilationError''"

text \<open>
  What can be observed of a run: the hooks called and the steps started, in order, the
  invocation of the user callback with its two arguments, and the construction of a
  \<open>Watching\<close>.
\<close>

datatype event =
    CacheEndIdle | HookBeforeRun | HookRun | ReadRecords
  | HookBeforeCompile | HookCompile | HookThisCompilation | HookCompilation | HookMake
  | Finish | Seal | HookAfterCompile
  | HookShouldEmit | EmitAssets | HookNeedAdditionalPass | EmitRecords
  | HookDone stats | HookAdditionalPass
  | CacheBeginIdle | HookFailed error | Callback "error option" "stats option"
  | HookAfterDone "stats option"
  | NewWatching

text \<open>
  The plugins, the cache and the file system decide how each asynchronous step of a pass
  ends. One pass is one call of \<open>compile\<close> with what follows it in \<open>onCompiled\<close>.
\<close>

record passOutcome =
  beforeCompileErr :: "error option"
  makeErr :: "error option"
  finishErr :: "error option"
  sealErr :: "error option"
  afterCompileErr :: "error option"
  built :: compilation
  shouldEmit :: bool
  emitAssetsErr :: "error option"
  additionalPassNeeded :: bool
  emitRecordsErr :: "error option"
  doneErr :: "error option"
  additionalPassErr :: "error option"

record runOutcome =
  endIdleErr :: "error option"
  beforeRunErr :: "error option"
  runErr :: "error option"
  readRecordsErr :: "error option"
  passes :: "passOutcome list"

text \<open>\<open>finalCallback\<close> of \<open>run\<close>; \<open>callback\<close> tells whether a callback was passed.\<close>

definition finalCallback ::
  "bool \<Rightarrow> compiler \<Rightarrow> error option \<Rightarrow> stats option \<Rightarrow> compiler \<times> event list" where
  "finalCallback callback c err st =
     (c\<lparr>running := False\<rparr>,
      [CacheBeginIdle]
      @ (case err of None \<Rightarrow> [] | Some e \<Rightarrow> [HookFailed e])
      @ (if callback then [Callback err st] else [])
      @ [HookAfterDone st])"

text \<open>
  \<open>compile\<close>: the events up to its callback, and the error or compilation passed to it.
\<close>

definition compile :: "passOutcome \<Rightarrow> event list \<times> (error + compilation)" where
  "compile p =
     (case beforeCompileErr p of
        Some e \<Rightarrow> ([HookBeforeCompile], Inl e)
      | None \<Rightarrow>
          (case makeErr p of
             Some e \<Rightarrow>
               ([HookBeforeCompile, HookCompile, HookThisCompilation, HookCompilation, HookMake],
                Inl e)
           | None \<Rightarrow>
               (case finishErr p of
                  Some e \<Rightarrow>
                    ([HookBeforeCompile, HookCompile, HookThisCompilation, HookCompilation,
                      HookMake, Finish], Inl e)
                | None \<Rightarrow>
                    (case sealErr p of
                       Some e \<Rightarrow>
                         ([HookBeforeCompile, HookCompile, HookThisCompilation, HookCompilation,
                           HookMake, Finish, Seal], Inl e)
                     | None \<Rightarrow>
                         (case afterCompileErr p of
                            Some e \<Rightarrow>
                              ([HookBeforeCompile, HookCompile, HookThisCompilation,
                                HookCompilation, HookMake, Finish, Seal, HookAfterCompile],
                               Inl e)
                          | None \<Rightarrow>
                              ([HookBeforeCompile, HookCompile, HookThisCompilation,
                                HookCompilation, HookMake, Finish, Seal, HookAfterCompile],
                               Inr (built p)))))))"

text \<open>
  \<open>this.compile(onCompiled)\<close>, over the passes still to come: the events up to the
  call of \<open>finalCallback\<close>, and the arguments of that call. With no pass left the
  compilation never calls back, \<open>finalCallback\<close> is not reached and the run stays in
  flight.
\<close>

fun onCompiled :: "passOutcome list \<Rightarrow> event list \<times> (error option \<times> stats option) option" where
  "onCompiled [] = ([], None)"
| "onCompiled (p # ps) =
     (case compile p of
        (evs, Inl e) \<Rightarrow> (evs, Some (Some e, None))
      | (evs, Inr compilation) \<Rightarrow>
          if \<not> shouldEmit p
          then (let st = \<lparr>statsCompilation = compilation\<rparr> in
                case doneErr p of
                  Some e \<Rightarrow> (evs @ [HookShouldEmit, HookDone st], Some (Some e, None))
                | None \<Rightarrow> (evs @ [HookShouldEmit, HookDone st], Some (None, Some st)))
          else
            (case emitAssetsErr p of
               Some e \<Rightarrow> (evs @ [HookShouldEmit, EmitAssets], Some (Some e, None))
             | None \<Rightarrow>
                 if additionalPassNeeded p
                 then
                   (let st = \<lparr>statsCompilation = compilation\<lparr>needAdditionalPass := True\<rparr>\<rparr>;
                        pre = evs @ [HookShouldEmit, EmitAssets, HookNeedAdditionalPass,
                                     HookDone st]
                    in case doneErr p of
                         Some e \<Rightarrow> (pre, Some (Some e, None))
                       | None \<Rightarrow>
                           (case additionalPassErr p of
                              Some e \<Rightarrow> (pre @ [HookAdditionalPass], Some (Some e, None))
                            | None \<Rightarrow>
                                (case onCompiled ps of
                                   (rest, fin) \<Rightarrow> (pre @ [HookAdditionalPass] @ rest, fin))))
                 else
                   (let st = \<lparr>statsCompilation = compilation\<rparr>;
                        pre = evs @ [HookShouldEmit, EmitAssets, HookNeedAdditionalPass,
                                     EmitRecords]
                    in case emitRecordsErr p of
                         Some e \<Rightarrow> (pre, Some (Some e, None))
                       | None \<Rightarrow>
                           (case doneErr p of
                              Some e \<Rightarrow> (pre @ [HookDone st], Some (Some e, None))
                            | None \<Rightarrow> (pre @ [HookDone st], Some (None, Some st))))))"

text \<open>
  The steps of \<open>run\<close> before the first \<open>compile\<close>, then the passes.
\<close>

definition runSteps :: "runOutcome \<Rightarrow> event list \<times> (error option \<times> stats option) option" where
  "runSteps out =
     (case endIdleErr out of
        Some e \<Rightarrow> ([CacheEndIdle], Some (Some e, None))
      | None \<Rightarrow>
          (case beforeRunErr out of
             Some e \<Rightarrow> ([CacheEndIdle, HookBeforeRun], Some (Some e, None))
           | None \<Rightarrow>
               (case runErr out of
                  Some e \<Rightarrow> ([CacheEndIdle, HookBeforeRun, HookRun], Some (Some e, None))
                | None \<Rightarrow>
                    (case readRecordsErr out of
                       Some e \<Rightarrow>
                         ([CacheEndIdle, HookBeforeRun, HookRun, ReadRecords],
                          Some (Some e, None))
                     | None \<Rightarrow>
                         (case onCompiled (passes out) of
                            (rest, fin) \<Rightarrow>
                              ([CacheEndIdle, HookBeforeRun, HookRun, ReadRecords] @ rest,
                               fin))))))"

text \<open>
  \<open>Compiler.run\<close>. Called without a callback while running, the call of the missing
  callback throws; this is the \<open>Inl\<close> result.
\<close>

definition run :: "compiler \<Rightarrow> bool \<Rightarrow> runOutcome \<Rightarrow> error + compiler \<times> event list" where
  "run c callback out =
     (if running c
      then (if callback then Inr (c, [Callback (Some ConcurrentCompilationError) None])
            else Inl (Error ''callback is not a function''))
      else
        (let c1 = c\<lparr>running := True\<rparr> in
         case runSteps out of
           (evs, None) \<Rightarrow> Inr (c1, evs)
         | (evs, Some (err, st)) \<Rightarrow>
             (case finalCallback callback c1 err st of
                (c', fin) \<Rightarrow> Inr (c', evs @ fin))))"

text \<open>\<open>Compiler.watch\<close>; the \<open>Watching\<close> it constructs lies outside the sources.\<close>

definition watch :: "compiler \<Rightarrow> bool \<Rightarrow> error + compiler \<times> event list" where
  "watch c handler =
     (if running c
      then (if handler then Inr (c, [Callback (Some ConcurrentCompilationError) None])
            else Inl (Error ''handler is not a function''))
      else Inr (c\<lparr>running := True, watchMode := True\<rparr>, [NewWatching]))"


fun doneStats :: "event list \<Rightarrow> stats list" where
  "doneStats [] = []"
| "doneStats (HookDone s # evs) = s # doneStats evs"
| "doneStats (ev # evs) = doneStats evs"



text \<open>Two example runs: a build with a module-level error, and a failure in \<open>make\<close>.\<close>

definition examplePass :: passOutcome where
  "examplePass =
     \<lparr>beforeCompileErr = None, makeErr = None, finishErr = None, sealErr = None,
      afterCompileErr = None,
      built = \<lparr>errors = [''Module not found''], warnings = [], needAdditionalPass = False\<rparr>,
      shouldEmit = True, emitAssetsErr = None, additionalPassNeeded = False,
      emitRecordsErr = None, doneErr = None, additionalPassErr = None\<rparr>"

definition exampleRun :: runOutcome where
  "exampleRun =
     \<lparr>endIdleErr = None, beforeRunErr = None, runErr = None, readRecordsErr = None,
      passes = [examplePass]\<rparr>"


definition idleCompiler :: compiler where
  "idleCompiler = \<lparr>running = False, watchMode = False\<rparr>"

section \<open>JavascriptModulesPlugin\<close>

subsection \<open>Text helpers of \<open>Template\<close>\<close>

fun joinWith :: "string \<Rightarrow> string list \<Rightarrow> string" where
  "joinWith sep [] = []"
| "joinWith sep [s] = s"
| "joinWith sep (s # ss) = s @ sep @ joinWith sep ss"

text \<open>\<open>Template.asString\<close> on an array of lines.\<close>

definition asString :: "string list \<Rightarrow> string" where
  "asString ls = joinWith nl ls"

definition isSpace :: "char \<Rightarrow> bool" where
  "isSpace c \<longleftrightarrow> c \<in> set [CHR 0x09, CHR 0x0A, CHR 0x0B, CHR 0x0C, CHR 0x0D, CHR 0x20, CHR 0xA0]"

definition trimRight :: "string \<Rightarrow> string" where
  "trimRight s = rev (dropWhile isSpace (rev s))"

text \<open>\<open>str.replace(/\n([^\n])/g, "\n\t$1")\<close>.\<close>

fun addTabs :: "string \<Rightarrow> string" where
  "addTabs [] = []"
| "addTabs [c] = [c]"
| "addTabs (c # d # cs) =
     (if c = CHR 0x0A \<and> d \<noteq> CHR 0x0A then c # CHR 0x09 # d # addTabs cs
      else c # addTabs (d # cs))"

text \<open>\<open>Template.indent\<close> on a string, and on an array of strings.\<close>

definition indent :: "string \<Rightarrow> string" where
  "indent s =
     (let str = trimRight s in
      if str = [] then []
      else (if hd str = CHR 0x0A then [] else tab) @ addTabs str)"

definition indentLines :: "string list \<Rightarrow> string" where
  "indentLines ls = joinWith nl (map indent ls)"

text \<open>\<open>str.replace(/\*\//g, "* /")\<close> and \<open>Template.toNormalComment\<close>.\<close>

fun replaceCommentEnd :: "string \<Rightarrow> string" where
  "replaceCommentEnd [] = []"
| "replaceCommentEnd [c] = [c]"
| "replaceCommentEnd (c # d # cs) =
     (if c = CHR ''*'' \<and> d = CHR ''/'' then ''* /'' @ replaceCommentEnd cs
      else c # replaceCommentEnd (d # cs))"

definition toNormalComment :: "string \<Rightarrow> string" where
  "toNormalComment str = (if str = [] then [] else ''/* '' @ replaceCommentEnd str @ '' */'')"

subsection \<open>Sources, modules and the render context\<close>

text \<open>
  The classes of \<open>webpack-sources\<close> are kept as constructors: what is rendered is the
  tree of sources that the plugin builds.
\<close>

datatype src =
    RawSource string
  | OriginalSource string string
  | PrefixSource string src
  | ConcatSource "src list"

text \<open>
  The runtime capabilities that \<open>JavascriptModulesPlugin\<close> asks for. Their string values
  are defined in \<open>RuntimeGlobals\<close>, outside the sources; they are the parameter
  \<open>globalName\<close> below.
\<close>

datatype runtimeGlobal =
    Require | ModuleCache | ModuleFactories | ModuleFactoriesAddOnly | Module | Exports
  | RequireScope | InterceptModuleExecution | ReturnExportsFromRuntime | StartupNoDefault
  | Startup | EntryModuleId | ThisAsExports

record connection =
  originModule :: "nat option"
  active :: bool

text \<open>
  A module as the plugin sees it through the chunk graph and the module graph: its
  identity, its id in the chunk graph, \<open>buildInfo.strict\<close>, its incoming connections and
  its own runtime requirements.
\<close>

record jsModule =
  moduleRef :: nat
  chunkModuleId :: moduleId
  strict :: bool
  incomingConnections :: "connection list"
  moduleRuntimeRequirements :: "runtimeGlobal set"

record runtimeModule =
  identifier' :: string
  runtimeSource :: "string option"

text \<open>The third argument of \<open>renderModule\<close>: \<open>true\<close>, \<open>"strict"\<close> or \<open>false\<close>.\<close>

datatype factoryMode = AsFactory | AsStrictFactory | PureContent

record renderContext =
  treeRuntimeRequirements :: "runtimeGlobal set"
  entryModules :: "jsModule list"
  javascriptModules :: "jsModule list"
  runtimeModules :: "runtimeModule list"
  hotRemovedModules :: "moduleId list option"
  isIIFE :: bool
  supportsConst :: bool
  strictModuleExceptionHandling :: bool
  globalName :: "runtimeGlobal \<Rightarrow> string"
  basicFunction :: "string \<Rightarrow> string list \<Rightarrow> string"
  stringifyId :: "moduleId \<Rightarrow> string"
  sortRemovedIds :: "moduleId list \<Rightarrow> moduleId list"
  renderRequireHook :: "string \<Rightarrow> error + string"
  renderModuleAs :: "jsModule \<Rightarrow> factoryMode \<Rightarrow> string option"

subsection \<open>\<open>renderRequire\<close> and \<open>renderBootstrap\<close>\<close>

definition renderRequire :: "renderContext \<Rightarrow> error + string" where
  "renderRequire ctx =
     (let runtimeRequirements = treeRuntimeRequirements ctx;
          moduleExecution =
            (if InterceptModuleExecution \<in> runtimeRequirements
             then asString
               [''var execOptions = { id: moduleId, module: module, factory: __webpack_modules__[moduleId], require: __webpack_require__ };'',
                globalName ctx InterceptModuleExecution
                  @ ''.forEach(function(handler) { handler(execOptions); });'',
                ''module = execOptions.module;'',
                ''execOptions.factory.call(module.exports, module, module.exports, execOptions.require);'']
             else if ThisAsExports \<in> runtimeRequirements
             then asString
               [''__webpack_modules__[moduleId].call(module.exports, module, module.exports, __webpack_require__);'']
             else asString
               [''__webpack_modules__[moduleId](module, module.exports, __webpack_require__);'']);
          content = asString
            [''// Check if module is in cache'',
             ''if(__webpack_module_cache__[moduleId]) {'',
             indent ''return __webpack_module_cache__[moduleId].exports;'',
             ''}'',
             ''// Create a new module (and put it into the cache)'',
             ''var module = __webpack_module_cache__[moduleId] = {'',
             indentLines [''i: moduleId,'', ''l: false,'', ''exports: {}''],
             ''};'',
             [],
             (if strictModuleExceptionHandling ctx
              then asString
                [''// Execute the module function'',
                 ''var threw = true;'',
                 ''try {'',
                 indentLines [moduleExecution, ''threw = false;''],
                 ''} finally {'',
                 indentLines [''if(threw) delete __webpack_module_cache__[moduleId];''],
                 ''}'']
              else asString [''// Execute the module function'', moduleExecution]),
             [],
             ''// Flag the module as loaded'',
             ''module.l = true;'',
             [],
             ''// Return the exports of the module'',
             ''return module.exports;'']
      in renderRequireHook ctx content)"

record bootstrap =
  header :: "string list"
  startup :: "string list"
  allowInlineStartup :: bool

text \<open>\<open>someInIterable(moduleGraph.getIncomingConnections(m), c => c.originModule && c.active)\<close>.\<close>

definition referencedByOthers :: "jsModule \<Rightarrow> bool" where
  "referencedByOthers m \<longleftrightarrow>
     list_ex (\<lambda>c. originModule c \<noteq> None \<and> active c) (incomingConnections m)"

text \<open>
  The loop over the entry modules. Its state is \<open>result.allowInlineStartup\<close>, the lines
  \<open>buf2\<close> and the counter \<open>i\<close>.
\<close>

definition entryStep ::
  "renderContext \<Rightarrow> bool \<Rightarrow> jsModule \<Rightarrow> bool \<times> string list \<times> int
    \<Rightarrow> bool \<times> string list \<times> int" where
  "entryStep ctx useRequire entryModule state =
     (let allow = fst state; buf2 = fst (snd state); i = snd (snd state);
          referenced = (allow \<and> referencedByOthers entryModule);
          allow1 = (if referenced then False else allow);
          buf2a =
            (if referenced
             then buf2 @ [''// This entry module is referenced by other modules so it can''
                          @ apos @ ''t be inlined'']
             else buf2);
          i' = i - 1;
          mayReturn =
            (if i' = 0 \<and> ReturnExportsFromRuntime \<in> treeRuntimeRequirements ctx
             then ''return '' else []);
          moduleIdExpr0 = stringifyId ctx (chunkModuleId entryModule);
          moduleIdExpr =
            (if EntryModuleId \<in> treeRuntimeRequirements ctx
             then globalName ctx EntryModuleId @ '' = '' @ moduleIdExpr0
             else moduleIdExpr0)
      in (if useRequire
            then (let buf2b = buf2a @ [mayReturn @ ''__webpack_require__('' @ moduleIdExpr @ '');'']
                  in if allow1
                     then (if Module \<in> moduleRuntimeRequirements entryModule
                           then (False,
                                 buf2b @ [''// This entry module used '' @ apos @ ''module''
                                          @ apos @ '' so it can'' @ apos @ ''t be inlined''],
                                 i')
                           else if Exports \<in> moduleRuntimeRequirements entryModule
                           then (False,
                                 buf2b @ [''// This entry module used '' @ apos @ ''exports''
                                          @ apos @ '' so it can'' @ apos @ ''t be inlined''],
                                 i')
                           else (allow1, buf2b, i'))
                     else (allow1, buf2b, i'))
            else if RequireScope \<in> treeRuntimeRequirements ctx
            then (allow1,
                  buf2a @ [''__webpack_modules__['' @ moduleIdExpr
                           @ ''](0, 0, __webpack_require__);''],
                  i')
            else (allow1, buf2a @ [''__webpack_modules__['' @ moduleIdExpr @ '']();''], i')))"

fun entryLoop ::
  "renderContext \<Rightarrow> bool \<Rightarrow> jsModule list \<Rightarrow> bool \<times> string list \<times> int
    \<Rightarrow> bool \<times> string list \<times> int" where
  "entryLoop ctx useRequire [] state = state"
| "entryLoop ctx useRequire (entryModule # rest) state =
     entryLoop ctx useRequire rest (entryStep ctx useRequire entryModule state)"

definition renderBootstrap :: "renderContext \<Rightarrow> error + bootstrap" where
  "renderBootstrap ctx =
     (let runtimeRequirements = treeRuntimeRequirements ctx;
          requireFunction = (Require \<in> runtimeRequirements);
          moduleCache = (ModuleCache \<in> runtimeRequirements);
          moduleFactories = (ModuleFactories \<in> runtimeRequirements);
          moduleUsed = (Module \<in> runtimeRequirements);
          exportsUsed = (Exports \<in> runtimeRequirements);
          interceptModuleExecution = (InterceptModuleExecution \<in> runtimeRequirements);
          returnExportsFromRuntime = (ReturnExportsFromRuntime \<in> runtimeRequirements);
          useRequire = (requireFunction \<or> interceptModuleExecution \<or> returnExportsFromRuntime
                        \<or> moduleUsed \<or> exportsUsed);
          startup1 =
            (if moduleFactories
             then [''// module factories are used so entry inlining is disabled''] else []);
          allow1 = (\<not> moduleFactories);
          startup2 =
            startup1 @ (if allow1 \<and> moduleCache
                        then [''// module cache are used so entry inlining is disabled'']
                        else []);
          allow2 = (allow1 \<and> \<not> moduleCache);
          startup3 =
            startup2 @ (if allow2 \<and> interceptModuleExecution
                        then [''// module execution is intercepted so entry inlining is disabled'']
                        else []);
          allow3 = (allow2 \<and> \<not> interceptModuleExecution);
          startup4 =
            startup3 @ (if allow3 \<and> returnExportsFromRuntime
                        then [''// module exports must be returned from runtime so entry inlining is disabled'']
                        else []);
          allow4 = (allow3 \<and> \<not> returnExportsFromRuntime);
          buf1 =
            (if useRequire \<or> moduleCache
             then [''// The module cache'', ''var __webpack_module_cache__ = {};'', []]
             else [])
      in case (if useRequire then renderRequire ctx else Inr []) of
           Inl e \<Rightarrow> Inl e
         | Inr require \<Rightarrow>
             (let buf2 =
                    buf1 @
                    (if useRequire
                     then [''// The require function'',
                           ''function __webpack_require__(moduleId) {'',
                           indent require, ''}'', []]
                     else if RequireScope \<in> runtimeRequirements
                     then [''// The require scope'', ''var __webpack_require__ = {};'', []]
                     else []);
                  buf3 =
                    buf2 @
                    (if moduleFactories \<or> ModuleFactoriesAddOnly \<in> runtimeRequirements
                     then [''// expose the modules object (__webpack_modules__)'',
                           globalName ctx ModuleFactories @ '' = __webpack_modules__;'', []]
                     else []);
                  buf4 =
                    buf3 @
                    (if moduleCache
                     then [''// expose the module cache'',
                           globalName ctx ModuleCache @ '' = __webpack_module_cache__;'', []]
                     else []);
                  buf =
                    buf4 @
                    (if interceptModuleExecution
                     then [''// expose the module execution interceptor'',
                           globalName ctx InterceptModuleExecution @ '' = [];'', []]
                     else [])
              in if StartupNoDefault \<notin> runtimeRequirements
                 then
                   (if entryModules ctx \<noteq> []
                    then
                      (case entryLoop ctx useRequire (entryModules ctx)
                              (allow4,
                               [if returnExportsFromRuntime
                                then ''// Load entry module and return exports''
                                else ''// Load entry module''],
                               int (length (entryModules ctx))) of
                         (allow5, lines, i) \<Rightarrow>
                           if Startup \<in> runtimeRequirements
                           then Inr \<lparr>header =
                                       buf @
                                       [asString
                                          [''// the startup function'',
                                           globalName ctx Startup @ '' = ''
                                             @ basicFunction ctx [] lines @ '';''],
                                        []],
                                     startup =
                                       startup4 @ [''// run startup'',
                                         ''return '' @ globalName ctx Startup @ ''();''],
                                     allowInlineStartup = False\<rparr>
                           else Inr \<lparr>header = buf,
                                     startup = startup4 @ [asString [''// startup'', asString lines]],
                                     allowInlineStartup = allow5\<rparr>)
                    else if Startup \<in> runtimeRequirements
                    then Inr \<lparr>header =
                                buf @
                                [asString
                                   [''// the startup function'',
                                    ''// It'' @ apos
                                      @ ''s empty as no entry modules are in this chunk'',
                                    globalName ctx Startup @ '' = '' @ basicFunction ctx [] []],
                                 []],
                              startup = startup4,
                              allowInlineStartup = allow4\<rparr>
                    else Inr \<lparr>header = buf, startup = startup4, allowInlineStartup = allow4\<rparr>)
                 else if Startup \<in> runtimeRequirements
                 then Inr \<lparr>header = buf,
                           startup = startup4 @ [''// run startup'',
                             ''return '' @ globalName ctx Startup @ ''();''],
                           allowInlineStartup = False\<rparr>
                 else Inr \<lparr>header = buf, startup = startup4, allowInlineStartup = allow4\<rparr>))"

subsection \<open>\<open>renderMain\<close>\<close>

definition dquote :: string where
  "dquote = [CHR 0x22]"

definition separatorLine :: string where
  "separatorLine =
     ''/************************************************************************/'' @ nl"

text \<open>\<open>Template.renderRuntimeModules\<close>; a module without a runtime source adds nothing.\<close>

definition renderRuntimeModules :: "runtimeModule list \<Rightarrow> src" where
  "renderRuntimeModules rms =
     ConcatSource (concat (map (\<lambda>m.
        case runtimeSource m of
          None \<Rightarrow> []
        | Some moduleSource \<Rightarrow>
            [RawSource (toNormalComment (identifier' m) @ nl),
             RawSource (''!function() {'' @ nl),
             PrefixSource tab (RawSource moduleSource),
             RawSource (nl @ ''}();'' @ nl @ nl)]) rms))"

text \<open>
  \<open>inlinedModules\<close>: the set of the entry modules when inlining is allowed, in iteration
  order.
\<close>

definition inlinedModules :: "renderContext \<Rightarrow> bootstrap \<Rightarrow> jsModule list option" where
  "inlinedModules ctx b =
     (if allowInlineStartup b then Some (remdups (entryModules ctx)) else None)"

definition mainPrefix :: "renderContext \<Rightarrow> string" where
  "mainPrefix ctx = (if isIIFE ctx then ''/******/ '' @ tab else ''/******/ '')"

definition allStrict :: "renderContext \<Rightarrow> bool" where
  "allStrict ctx = list_all strict (javascriptModules ctx)"

text \<open>The call of \<open>Template.renderChunkModules\<close> in \<open>renderMain\<close>.\<close>

definition mainChunkModules :: "renderContext \<Rightarrow> bootstrap \<Rightarrow> string list option" where
  "mainChunkModules ctx b =
     renderChunkModules (hotRemovedModules ctx) (sortRemovedIds ctx) chunkModuleId
       (stringifyId ctx)
       (case inlinedModules ctx b of
          Some inlined \<Rightarrow> filter (\<lambda>m. m \<notin> set inlined) (javascriptModules ctx)
        | None \<Rightarrow> javascriptModules ctx)
       (\<lambda>m. renderModuleAs ctx m (if allStrict ctx then AsStrictFactory else AsFactory))
       (mainPrefix ctx)"

text \<open>The body of the loop over \<open>inlinedModules\<close>.\<close>

definition inlineModule ::
  "renderContext \<Rightarrow> jsModule list \<Rightarrow> bool \<Rightarrow> jsModule \<Rightarrow> src list" where
  "inlineModule ctx inlined hasChunkModules m =
     (case renderModuleAs ctx m PureContent of
        None \<Rightarrow> []
      | Some renderedModule \<Rightarrow>
          (let innerStrict = (\<not> allStrict ctx \<and> strict m);
               iife = (innerStrict \<or> length inlined > 1 \<or> hasChunkModules)
           in if iife
              then [RawSource (''!function() {'' @ nl)]
                   @ (if innerStrict
                      then [RawSource (dquote @ ''use strict'' @ dquote @ '';'' @ nl)] else [])
                   @ [RawSource renderedModule, RawSource (nl @ ''}();'' @ nl)]
              else [RawSource renderedModule, RawSource nl]))"

text \<open>
  Either the entry modules inline, or the startup code of the bootstrap: the last part of
  \<open>renderMain\<close> before the closing of the function wrapper.
\<close>

definition startupSection :: "renderContext \<Rightarrow> bootstrap \<Rightarrow> src list" where
  "startupSection ctx b =
     (case inlinedModules ctx b of
        Some inlined \<Rightarrow>
          concat (map (inlineModule ctx inlined (mainChunkModules ctx b \<noteq> None)) inlined)
      | None \<Rightarrow>
          [PrefixSource (mainPrefix ctx)
             (OriginalSource (asString (startup b) @ nl) ''webpack/startup'')])"

text \<open>
  \<open>renderMain\<close> up to the calls of the \<open>renderMain\<close> and \<open>render\<close> hooks: the sources
  added to \<open>source\<close>, in order.
\<close>

definition renderMainSource :: "renderContext \<Rightarrow> error + src list" where
  "renderMainSource ctx =
     (case renderBootstrap ctx of
        Inl e \<Rightarrow> Inl e
      | Inr b \<Rightarrow>
          Inr ((if isIIFE ctx
                then [RawSource
                        (if supportsConst ctx
                         then ''/******/ (() => { // webpackBootstrap'' @ nl
                         else ''/******/ (function() { // webpackBootstrap'' @ nl)]
                else [])
               @ (if allStrict ctx
                  then [RawSource (mainPrefix ctx @ dquote @ ''use strict'' @ dquote @ '';'' @ nl)]
                  else [])
               @ (if mainChunkModules ctx b \<noteq> None
                     \<or> ModuleFactories \<in> treeRuntimeRequirements ctx
                     \<or> ModuleFactoriesAddOnly \<in> treeRuntimeRequirements ctx
                  then [RawSource (mainPrefix ctx @ ''var __webpack_modules__ = (''),
                        (case mainChunkModules ctx b of
                           Some pieces \<Rightarrow> ConcatSource (map RawSource pieces)
                         | None \<Rightarrow> RawSource ''{}''),
                        RawSource ('');'' @ nl),
                        RawSource separatorLine]
                  else [])
               @ (if header b \<noteq> []
                  then [PrefixSource (mainPrefix ctx)
                          (OriginalSource (asString (header b) @ nl) ''webpack/bootstrap''),
                        RawSource separatorLine]
                  else [])
               @ (if runtimeModules ctx \<noteq> []
                  then [PrefixSource (mainPrefix ctx) (renderRuntimeModules (runtimeModules ctx)),
                        RawSource separatorLine]
                  else [])
               @ startupSection ctx b
               @ (if isIIFE ctx then [RawSource (''/******/ })()'' @ nl)] else [])))"

text \<open>Whether the rendered sources contain the startup code of the bootstrap.\<close>

fun isStartupSource :: "src \<Rightarrow> bool" where
  "isStartupSource (PrefixSource p (OriginalSource text name)) = (name = ''webpack/startup'')"
| "isStartupSource s = False"

text \<open>
  An example chunk: one entry module that another module imports, in a chunk whose only
  runtime requirement is that no default startup is wanted.
\<close>

definition exampleEntry :: jsModule where
  "exampleEntry =
     \<lparr>moduleRef = 0, chunkModuleId = NumId 0, strict = True,
      incomingConnections = [\<lparr>originModule = Some 1, active = True\<rparr>],
      moduleRuntimeRequirements = {}\<rparr>"

definition exampleChunk :: "runtimeGlobal set \<Rightarrow> jsModule list \<Rightarrow> renderContext" where
  "exampleChunk reqs entries =
     \<lparr>treeRuntimeRequirements = reqs,
      entryModules = entries,
      javascriptModules = entries,
      runtimeModules = [],
      hotRemovedModules = None,
      isIIFE = True,
      supportsConst = False,
      strictModuleExceptionHandling = False,
      globalName = (\<lambda>g. ''__webpack_require__.x''),
      basicFunction = (\<lambda>args body. ''function('' @ args @ '') {}''),
      stringifyId = idToString,
      sortRemovedIds = (\<lambda>ids. ids),
      renderRequireHook = (\<lambda>content. Inr content),
      renderModuleAs = (\<lambda>m mode. Some ''code'')\<rparr>"

section \<open>Properties of \<open>Template\<close>\<close>

subsection \<open>\<open>numberToIdentifier\<close>\<close>










subsection \<open>\<open>getModulesArrayBounds\<close> and \<open>renderChunkModules\<close>\<close>






lemma getModulesArrayBounds_empty:
  "getModulesArrayBounds [] = Some (PosInfinity, NegInfinity)"
  by (simp add: getModulesArrayBounds_def)













section \<open>Properties of \<open>NormalModuleFactory\<close>\<close>

subsection \<open>\<open>needCalls\<close>\<close>











subsection \<open>\<open>resolveRequestArray\<close>\<close>


lemma asyncMap_all_results:
  assumes "\<forall>p \<in> set xs. \<exists>y. snd (f p) = Inr y"
  shows "snd (asyncMap f xs) = Inr (map (\<lambda>p. projr (snd (f p))) xs)"
  using assms
proof (induction xs)
  case Nil
  then show ?case by simp
next
  case (Cons p xs)
  then obtain y where "snd (f p) = Inr y" by auto
  moreover have "snd (asyncMap f xs) = Inr (map (\<lambda>p. projr (snd (f p))) xs)"
    using Cons by simp
  ultimately show ?case by (auto split: prod.splits)
qed







subsection \<open>Parser and generator caches\<close>























subsection \<open>The \<open>resolve\<close> hook\<close>

lemma needCalls_two:
  "needCalls 2 [a, b] = [case a of Some e \<Rightarrow> Some e | None \<Rightarrow> b]"
  by (cases a; cases b) (simp_all add: needCalls_def needCallsStep_def)

lemma needCalls_three:
  "needCalls 3 [a, b, c] =
     [case a of Some e \<Rightarrow> Some e | None \<Rightarrow> (case b of Some e \<Rightarrow> Some e | None \<Rightarrow> c)]"
  by (cases a; cases b; cases c) (simp_all add: needCalls_def needCallsStep_def)

lemma collectEffects_post:
  "fst (collectEffects merge p rs (post, normal, pre, st))
     = post @ (if noPrePostAutoLoaders p then [] else usePostOf rs)"
proof (induction rs arbitrary: post normal pre st)
  case Nil
  then show ?case by simp
next
  case (Cons r rs)
  then show ?case by (cases r) simp_all
qed

lemma collectEffects_normal:
  "fst (snd (collectEffects merge p rs (post, normal, pre, st)))
     = normal @ (if noAutoLoaders p \<or> noPrePostAutoLoaders p then [] else useOf rs)"
proof (induction rs arbitrary: post normal pre st)
  case Nil
  then show ?case by simp
next
  case (Cons r rs)
  then show ?case by (cases r) simp_all
qed

lemma collectEffects_pre:
  "fst (snd (snd (collectEffects merge p rs (post, normal, pre, st))))
     = pre @ (if noPreAutoLoaders p \<or> noPrePostAutoLoaders p then [] else usePreOf rs)"
proof (induction rs arbitrary: post normal pre st)
  case Nil
  then show ?case by simp
next
  case (Cons r rs)
  then show ?case by (cases r) simp_all
qed

lemma charCodeAt_one:
  "charCodeAt r 0 = Some (of_char x) \<longleftrightarrow> take 1 r = [x]"
  by (cases r) (auto simp: charCodeAt_def)

lemma charCodeAt_two:
  "charCodeAt r 0 = Some (of_char x) \<and> charCodeAt r 1 = Some (of_char y) \<longleftrightarrow> take 2 r = [x, y]"
proof (cases r)
  case Nil
  then show ?thesis by (simp add: charCodeAt_def)
next
  case (Cons c cs)
  then show ?thesis by (cases cs) (auto simp: charCodeAt_def)
qed

lemma bang_codes:
  "charCodeAt r 0 = Some 33 \<longleftrightarrow> take 1 r = ''!''"
  "charCodeAt r 0 = Some 33 \<and> charCodeAt r 1 = Some 33 \<longleftrightarrow> take 2 r = ''!!''"
  "charCodeAt r 0 = Some 45 \<and> charCodeAt r 1 = Some 33 \<longleftrightarrow> take 2 r = ''-!''"
  using charCodeAt_one [of r "CHR ''!''"] charCodeAt_two [of r "CHR ''!''" "CHR ''!''"]
    charCodeAt_two [of r "CHR ''-''" "CHR ''!''"]
  by simp_all

lemma parseRequest_noPrePost:
  "noPrePostAutoLoaders (parseRequest j ctx req) = (take 2 (withoutMatchResource req) = ''!!'')"
  using bang_codes(2) [of "withoutMatchResource req"]
  by (simp add: parseRequest_def Let_def)

lemma parseRequest_noPre:
  "noPreAutoLoaders (parseRequest j ctx req) = (take 2 (withoutMatchResource req) = ''-!'')"
  using bang_codes(3) [of "withoutMatchResource req"]
  by (simp add: parseRequest_def Let_def)

lemma parseRequest_noAuto:
  "noAutoLoaders (parseRequest j ctx req)
     = (take 2 (withoutMatchResource req) = ''-!'' \<or> take 1 (withoutMatchResource req) = ''!'')"
  using bang_codes(3) [of "withoutMatchResource req"] bang_codes(1) [of "withoutMatchResource req"]
  by (simp add: parseRequest_def Let_def)

lemma assignCreateData_created:
  assumes "assignCreateData env f rawReq p inl res rrd ur st post normal pre
             = (Result (Created cd), f')"
  shows "loaders cd = (case matchResource p of
                         None \<Rightarrow> post @ inl @ normal @ pre
                       | Some m \<Rightarrow> post @ normal @ inl @ pre)
         \<and> resource cd = res \<and> createdMatchResource cd = matchResource p"
  using assms unfolding assignCreateData_def Let_def
  by (auto split: sum.splits prod.splits)

lemma errOf_None: "errOf r = None \<longleftrightarrow> (\<exists>x. r = Inr x)"
  by (cases r) (simp_all add: errOf_def)

lemma errOf_Some: "errOf r = Some e \<longleftrightarrow> r = Inl e"
  by (cases r) (simp_all add: errOf_def)

lemma join_three:
  assumes "(case needCalls 3 [errOf a, errOf b, errOf c] of
              [] \<Rightarrow> x
            | Some err # later \<Rightarrow> y err
            | None # later \<Rightarrow> z) = w"
  shows "(\<exists>e. w = y e) \<or> (w = z \<and> (\<exists>ra rb rc. a = Inr ra \<and> b = Inr rb \<and> c = Inr rc))"
  using assms unfolding needCalls_three
  by (cases a; cases b; cases c) (auto simp: errOf_def)

lemma join_two:
  assumes "(case needCalls 2 [errOf a, errOf b] of
              [] \<Rightarrow> x
            | Some err # later \<Rightarrow> y err
            | None # later \<Rightarrow> z) = w"
  shows "(\<exists>e. w = y e) \<or> (w = z \<and> (\<exists>ra rb. a = Inr ra \<and> b = Inr rb))"
  using assms unfolding needCalls_two
  by (cases a; cases b) (auto simp: errOf_def)

lemma continueResolve_created:
  assumes "continueResolve env f ci rawReq p loaders0 resource0 rrd
             = (Called (Result (Created cd)), f')"
  shows "\<exists>inl post normal pre.
      translateIdents (references env) loaders0 = Inr inl
      \<and> resource0 = Resource (resource cd)
      \<and> createdMatchResource cd = matchResource p
      \<and> loaders cd = (case matchResource p of
                         None \<Rightarrow> post @ inl @ normal @ pre
                       | Some m \<Rightarrow> post @ normal @ inl @ pre)
      \<and> snd (resolveRequestArray (loaderResolver env) ci (factoryContext env)
               (if noPrePostAutoLoaders p then [] else usePostOf (matchedEffects env ci cd)))
           = Inr post
      \<and> snd (resolveRequestArray (loaderResolver env) ci (factoryContext env)
               (if noAutoLoaders p \<or> noPrePostAutoLoaders p then []
                else useOf (matchedEffects env ci cd)))
           = Inr normal
      \<and> snd (resolveRequestArray (loaderResolver env) ci (factoryContext env)
               (if noPreAutoLoaders p \<or> noPrePostAutoLoaders p then []
                else usePreOf (matchedEffects env ci cd)))
           = Inr pre"
proof -
  obtain inl where inl: "translateIdents (references env) loaders0 = Inr inl"
    using assms by (cases "translateIdents (references env) loaders0")
      (simp_all add: continueResolve_def)
  obtain res where res: "resource0 = Resource res"
    using assms inl by (cases resource0) (simp_all add: continueResolve_def)
  obtain str where str:
      "stringifyLoadersAndResource (stringifyOptions env) inl res = Inr str"
    using assms inl res
    by (cases "stringifyLoadersAndResource (stringifyOptions env) inl res")
      (simp_all add: continueResolve_def)
  define path where "path = (case matchResource p of None \<Rightarrow> res | Some m \<Rightarrow> m)"
  define rules where "rules = ruleSetExec env (takeWhile (\<lambda>c. c \<noteq> CHR ''?'') path)
      (case matchResource p of
         None \<Rightarrow> takeWhile (\<lambda>c. c \<noteq> CHR ''?'') path
       | Some m \<Rightarrow> stripQuery res)
      (dropWhile (\<lambda>c. c \<noteq> CHR ''?'') path) (issuer ci) (compiler ci)"
  define acc where "acc = collectEffects (cachedCleverMerge env) p rules
      ([], [], [], \<lambda>k. VUndefined)"
  define postR where "postR = snd (resolveRequestArray (loaderResolver env) ci
      (factoryContext env) (fst acc))"
  define normalR where "normalR = snd (resolveRequestArray (loaderResolver env) ci
      (factoryContext env) (fst (snd acc)))"
  define preR where "preR = snd (resolveRequestArray (loaderResolver env) ci
      (factoryContext env) (fst (snd (snd acc))))"
  define userReq where
    "userReq = (case matchResource p of None \<Rightarrow> [] | Some m \<Rightarrow> m @ ''!=!'') @ str"
  have unfolded: "(case needCalls 3 [errOf postR, errOf normalR, errOf preR] of
        [] \<Rightarrow> (Pending, f)
      | Some err # later \<Rightarrow> (Called (Failed err), f)
      | None # later \<Rightarrow>
          (case assignCreateData env f rawReq p inl res rrd userReq (snd (snd (snd acc)))
                  (resultOf postR) (resultOf normalR) (resultOf preR) of
             (out, f') \<Rightarrow> (Called out, f')))
      = (Called (Result (Created cd)), f')"
    using assms inl res str
    unfolding continueResolve_def path_def rules_def acc_def postR_def normalR_def preR_def
      userReq_def Let_def
    by (simp split: prod.splits)
  from join_three [OF unfolded]
  obtain post normal pre where results: "postR = Inr post" "normalR = Inr normal" "preR = Inr pre"
    and created: "(case assignCreateData env f rawReq p inl res rrd userReq (snd (snd (snd acc)))
                  (resultOf postR) (resultOf normalR) (resultOf preR) of
             (out, f') \<Rightarrow> (Called out, f')) = (Called (Result (Created cd)), f')"
    by auto
  have assigned: "assignCreateData env f rawReq p inl res rrd userReq (snd (snd (snd acc)))
      post normal pre = (Result (Created cd), f')"
    using created results by (simp add: resultOf_def split: prod.splits)
  note cd = assignCreateData_created [OF assigned]
  have rules_cd: "matchedEffects env ci cd = rules"
    using cd by (cases "matchResource p") (simp_all add: matchedEffects_def rules_def path_def Let_def)
  have lists: "fst acc = (if noPrePostAutoLoaders p then [] else usePostOf rules)"
    "fst (snd acc) = (if noAutoLoaders p \<or> noPrePostAutoLoaders p then [] else useOf rules)"
    "fst (snd (snd acc))
       = (if noPreAutoLoaders p \<or> noPrePostAutoLoaders p then [] else usePreOf rules)"
    unfolding acc_def
    using collectEffects_post [of "cachedCleverMerge env" p rules "[]" "[]" "[]" "\<lambda>k. VUndefined"]
      collectEffects_normal [of "cachedCleverMerge env" p rules "[]" "[]" "[]" "\<lambda>k. VUndefined"]
      collectEffects_pre [of "cachedCleverMerge env" p rules "[]" "[]" "[]" "\<lambda>k. VUndefined"]
    by simp_all
  have p1: "snd (resolveRequestArray (loaderResolver env) ci (factoryContext env)
               (if noPrePostAutoLoaders p then [] else usePostOf (matchedEffects env ci cd)))
           = Inr post"
    using results(1) unfolding postR_def lists rules_cd .
  have p2: "snd (resolveRequestArray (loaderResolver env) ci (factoryContext env)
               (if noAutoLoaders p \<or> noPrePostAutoLoaders p then []
                else useOf (matchedEffects env ci cd)))
           = Inr normal"
    using results(2) unfolding normalR_def lists rules_cd .
  have p3: "snd (resolveRequestArray (loaderResolver env) ci (factoryContext env)
               (if noPreAutoLoaders p \<or> noPrePostAutoLoaders p then []
                else usePreOf (matchedEffects env ci cd)))
           = Inr pre"
    using results(3) unfolding preR_def lists rules_cd .
  have r0: "resource0 = Resource (resource cd)" using res cd by simp
  show ?thesis
    using inl r0 cd p1 p2 p3 by blast
qed

lemma translateIdents_loaders:
  "translateIdents refs xs = Inr ys \<Longrightarrow> map loader ys = map loader xs"
proof (induction xs arbitrary: ys)
  case Nil
  then show ?case by simp
next
  case (Cons item items)
  obtain item' items' where parts: "ys = item' # items'"
      "translateIdents refs items = Inr items'" "loader item' = loader item"
    using Cons.prems
    by (auto simp: Let_def split: sum.splits jsval.splits list.splits if_splits)
  then show ?case using Cons.IH [of items'] by simp
qed

lemma parse_boundary:
  "matchResource (parseRequest j ctx ''!!loader!./file.js'') = None"
  "elements (parseRequest j ctx ''!!loader!./file.js'')
     = [\<lparr>loader = ''loader'', options = VUndefined, ident = None\<rparr>]"
  "unresolvedResource (parseRequest j ctx ''!!loader!./file.js'') = ''./file.js''"
  "withoutMatchResource ''!!loader!./file.js'' = ''!!loader!./file.js''"
  by (simp_all add: parseRequest_def withoutMatchResource_def matchResourceMatch_def
      charCodeAt_def identToLoaderRequest_def Let_def)

lemma resolveRequestArray_single:
  "snd (resolveRequestArray r ci ctx [item]) = Inr ys \<Longrightarrow>
     \<exists>path y. r ci ctx (loader item) = Inr path \<and> ys = [y]
       \<and> loader y = loader (identToLoaderRequest path)"
  by (auto simp: resolveRequestArray_def resolveLoader_def Let_def
      split: sum.splits prod.splits if_splits)

lemma resolveRequestArray_empty:
  "snd (resolveRequestArray r ci ctx []) = Inr ys \<longleftrightarrow> ys = []"
  by (auto simp: resolveRequestArray_def)

lemma resolveHook_created:
  assumes "resolveHook env f ci ctx req = (Called (Result (Created cd)), f')"
  shows "\<exists>inl0 rrd.
      snd (resolveRequestArray (loaderResolver env) ci ctx
             (elements (parseRequest (join env) ctx req))) = Inr inl0
      \<and> continueResolve env f ci req (parseRequest (join env) ctx req) inl0
            (Resource (resource cd)) rrd = (Called (Result (Created cd)), f')"
proof -
  define p where "p = parseRequest (join env) ctx req"
  define loadersR where
    "loadersR = snd (resolveRequestArray (loaderResolver env) ci ctx (elements p))"
  define resourceR where "resourceR =
      (if unresolvedResource p = [] \<or> charCodeAt (unresolvedResource p) 0 = Some 63
       then Inr (Resource (unresolvedResource p), VUndefined)
       else normalResolver env ci ctx (unresolvedResource p))"
  have unfolded: "(case needCalls 2 [errOf loadersR, errOf resourceR] of
        [] \<Rightarrow> (Pending, f)
      | Some err # later \<Rightarrow> (Called (Failed err), f)
      | None # later \<Rightarrow>
          (case resourceR of
             Inl e \<Rightarrow> (Pending, f)
           | Inr (resource0, rrd) \<Rightarrow>
               continueResolve env f ci req p (resultOf loadersR) resource0 rrd))
      = (Called (Result (Created cd)), f')"
    using assms unfolding resolveHook_def p_def loadersR_def resourceR_def Let_def by simp
  from join_two [OF unfolded]
  obtain inl0 rr where results: "loadersR = Inr inl0" "resourceR = Inr rr"
    and cont: "(case resourceR of
             Inl e \<Rightarrow> (Pending, f)
           | Inr (resource0, rrd) \<Rightarrow>
               continueResolve env f ci req p (resultOf loadersR) resource0 rrd)
         = (Called (Result (Created cd)), f')"
    by auto
  obtain resource0 rrd where rr: "rr = (resource0, rrd)" by (cases rr)
  have c: "continueResolve env f ci req p inl0 resource0 rrd
      = (Called (Result (Created cd)), f')"
    using cont results rr by (simp add: resultOf_def)
  have "resource0 = Resource (resource cd)"
    using continueResolve_created [OF c] by blast
  then show ?thesis
    using c results(1) unfolding loadersR_def p_def by blast
qed

lemma resolveHook_loaders:
  assumes "resolveHook env f ci ctx req = (Called (Result (Created cd)), f')"
  shows "\<exists>inl0 inl post normal pre.
      snd (resolveRequestArray (loaderResolver env) ci ctx
             (elements (parseRequest (join env) ctx req))) = Inr inl0
      \<and> translateIdents (references env) inl0 = Inr inl
      \<and> snd (resolveRequestArray (loaderResolver env) ci (factoryContext env)
               (if take 2 (withoutMatchResource req) = ''!!'' then []
                else usePostOf (matchedEffects env ci cd))) = Inr post
      \<and> snd (resolveRequestArray (loaderResolver env) ci (factoryContext env)
               (if take 2 (withoutMatchResource req) = ''!!''
                   \<or> take 2 (withoutMatchResource req) = ''-!''
                   \<or> take 1 (withoutMatchResource req) = ''!'' then []
                else useOf (matchedEffects env ci cd))) = Inr normal
      \<and> snd (resolveRequestArray (loaderResolver env) ci (factoryContext env)
               (if take 2 (withoutMatchResource req) = ''!!''
                   \<or> take 2 (withoutMatchResource req) = ''-!'' then []
                else usePreOf (matchedEffects env ci cd))) = Inr pre
      \<and> loaders cd = (case createdMatchResource cd of
                         None \<Rightarrow> post @ inl @ normal @ pre
                       | Some m \<Rightarrow> post @ normal @ inl @ pre)"
proof -
  define p where "p = parseRequest (join env) ctx req"
  obtain inl0 rrd where inl0: "snd (resolveRequestArray (loaderResolver env) ci ctx
             (elements (parseRequest (join env) ctx req))) = Inr inl0"
    and c: "continueResolve env f ci req p inl0 (Resource (resource cd)) rrd
              = (Called (Result (Created cd)), f')"
    using resolveHook_created [OF assms] unfolding p_def by blast
  have flags: "noPrePostAutoLoaders p = (take 2 (withoutMatchResource req) = ''!!'')"
    "(noAutoLoaders p \<or> noPrePostAutoLoaders p)
       = (take 2 (withoutMatchResource req) = ''!!''
          \<or> take 2 (withoutMatchResource req) = ''-!''
          \<or> take 1 (withoutMatchResource req) = ''!'')"
    "(noPreAutoLoaders p \<or> noPrePostAutoLoaders p)
       = (take 2 (withoutMatchResource req) = ''!!''
          \<or> take 2 (withoutMatchResource req) = ''-!'')"
    unfolding p_def parseRequest_noPrePost parseRequest_noPre parseRequest_noAuto by blast+
  from continueResolve_created [OF c]
  obtain inl post normal pre where parts:
    "translateIdents (references env) inl0 = Inr inl"
    "createdMatchResource cd = matchResource p"
    "loaders cd = (case matchResource p of
                     None \<Rightarrow> post @ inl @ normal @ pre
                   | Some m \<Rightarrow> post @ normal @ inl @ pre)"
    "snd (resolveRequestArray (loaderResolver env) ci (factoryContext env)
           (if noPrePostAutoLoaders p then [] else usePostOf (matchedEffects env ci cd)))
       = Inr post"
    "snd (resolveRequestArray (loaderResolver env) ci (factoryContext env)
           (if noAutoLoaders p \<or> noPrePostAutoLoaders p then []
            else useOf (matchedEffects env ci cd)))
       = Inr normal"
    "snd (resolveRequestArray (loaderResolver env) ci (factoryContext env)
           (if noPreAutoLoaders p \<or> noPrePostAutoLoaders p then []
            else usePreOf (matchedEffects env ci cd)))
       = Inr pre"
    by blast
  have l: "loaders cd = (case createdMatchResource cd of
                         None \<Rightarrow> post @ inl @ normal @ pre
                       | Some m \<Rightarrow> post @ normal @ inl @ pre)"
    using parts(2,3) by simp
  have q1: "snd (resolveRequestArray (loaderResolver env) ci (factoryContext env)
               (if take 2 (withoutMatchResource req) = ''!!'' then []
                else usePostOf (matchedEffects env ci cd))) = Inr post"
    using parts(4) flags(1) by simp
  have q2: "snd (resolveRequestArray (loaderResolver env) ci (factoryContext env)
               (if take 2 (withoutMatchResource req) = ''!!''
                   \<or> take 2 (withoutMatchResource req) = ''-!''
                   \<or> take 1 (withoutMatchResource req) = ''!'' then []
                else useOf (matchedEffects env ci cd))) = Inr normal"
    using parts(5) flags(2) by simp
  have q3: "snd (resolveRequestArray (loaderResolver env) ci (factoryContext env)
               (if take 2 (withoutMatchResource req) = ''!!''
                   \<or> take 2 (withoutMatchResource req) = ''-!'' then []
                else usePreOf (matchedEffects env ci cd))) = Inr pre"
    using parts(6) flags(3) by simp
  show ?thesis
    using inl0 parts(1) q1 q2 q3 l by blast
qed

text \<open>
  C1, as stated, fails for the prefixes \<open>-!\<close> and \<open>!\<close>. In the example configuration the
  rules match one post, one normal and one pre loader: behind \<open>-!\<close> the normal loader is
  dropped as well as the pre loader, and behind a single \<open>!\<close> the pre loader is kept.
\<close>

theorem resolveHook_prefix_counterexample:
  "loadersOf (resolveHook exampleEnvironment newFactory exampleContextInfo ''/ctx''
               ''-!loader!./file.js'') = Some [''/l/post'', ''/l/loader'']
   \<and> loadersOf (resolveHook exampleEnvironment newFactory exampleContextInfo ''/ctx''
               ''!loader!./file.js'') = Some [''/l/post'', ''/l/loader'', ''/l/pre'']"
  by code_simp

text \<open>
  C1 (amended). Whenever the resolve pipeline ends with create data, the loader list is
  the matched post loaders, the inline loaders of the request, the matched normal loaders
  and the matched pre loaders, resolved, in this order (normal before inline when the
  request has a match resource), where the request without its match resource decides
  what the rules contribute: behind \<open>!!\<close> no post, normal or pre loader; behind \<open>-!\<close> no
  normal and no pre loader, the post loaders stay; behind a single \<open>!\<close> no normal loader,
  the pre and post loaders stay. The inline loaders are kept in every case. For the
  request \<open>!!loader!./file.js\<close> the loader list is exactly the one inline loader.
\<close>

theorem resolveHook_prefixes:
  assumes "resolveHook env f ci ctx req = (Called (Result (Created cd)), f')"
  shows "\<exists>inl0 inl post normal pre.
      snd (resolveRequestArray (loaderResolver env) ci ctx
             (elements (parseRequest (join env) ctx req))) = Inr inl0
      \<and> translateIdents (references env) inl0 = Inr inl
      \<and> snd (resolveRequestArray (loaderResolver env) ci (factoryContext env)
               (if take 2 (withoutMatchResource req) = ''!!'' then []
                else usePostOf (matchedEffects env ci cd))) = Inr post
      \<and> snd (resolveRequestArray (loaderResolver env) ci (factoryContext env)
               (if take 2 (withoutMatchResource req) = ''!!''
                   \<or> take 2 (withoutMatchResource req) = ''-!''
                   \<or> take 1 (withoutMatchResource req) = ''!'' then []
                else useOf (matchedEffects env ci cd))) = Inr normal
      \<and> snd (resolveRequestArray (loaderResolver env) ci (factoryContext env)
               (if take 2 (withoutMatchResource req) = ''!!''
                   \<or> take 2 (withoutMatchResource req) = ''-!'' then []
                else usePreOf (matchedEffects env ci cd))) = Inr pre
      \<and> loaders cd = (case createdMatchResource cd of
                         None \<Rightarrow> post @ inl @ normal @ pre
                       | Some m \<Rightarrow> post @ normal @ inl @ pre)
      \<and> (take 2 (withoutMatchResource req) = ''!!'' \<longrightarrow> loaders cd = inl)
      \<and> (take 2 (withoutMatchResource req) = ''-!'' \<longrightarrow> loaders cd = post @ inl)
      \<and> (take 1 (withoutMatchResource req) = ''!''
           \<and> take 2 (withoutMatchResource req) \<noteq> ''!!'' \<longrightarrow> loaders cd = post @ inl @ pre)
      \<and> (req = ''!!loader!./file.js'' \<longrightarrow>
           (\<exists>path l. loaderResolver env ci ctx ''loader'' = Inr path
              \<and> loaders cd = [l] \<and> loader l = loader (identToLoaderRequest path)))"
proof -
  let ?r = "withoutMatchResource req"
  from resolveHook_loaders [OF assms]
  obtain inl0 inl post normal pre where parts:
    "snd (resolveRequestArray (loaderResolver env) ci ctx
           (elements (parseRequest (join env) ctx req))) = Inr inl0"
    "translateIdents (references env) inl0 = Inr inl"
    "snd (resolveRequestArray (loaderResolver env) ci (factoryContext env)
           (if take 2 ?r = ''!!'' then [] else usePostOf (matchedEffects env ci cd))) = Inr post"
    "snd (resolveRequestArray (loaderResolver env) ci (factoryContext env)
           (if take 2 ?r = ''!!'' \<or> take 2 ?r = ''-!'' \<or> take 1 ?r = ''!'' then []
            else useOf (matchedEffects env ci cd))) = Inr normal"
    "snd (resolveRequestArray (loaderResolver env) ci (factoryContext env)
           (if take 2 ?r = ''!!'' \<or> take 2 ?r = ''-!'' then []
            else usePreOf (matchedEffects env ci cd))) = Inr pre"
    "loaders cd = (case createdMatchResource cd of
                     None \<Rightarrow> post @ inl @ normal @ pre
                   | Some m \<Rightarrow> post @ normal @ inl @ pre)"
    by blast
  have post_empty: "take 2 ?r = ''!!'' \<Longrightarrow> post = []"
    using parts(3) by (simp add: resolveRequestArray_empty)
  have normal_empty:
    "take 2 ?r = ''!!'' \<or> take 2 ?r = ''-!'' \<or> take 1 ?r = ''!'' \<Longrightarrow> normal = []"
    using parts(4) by (simp add: resolveRequestArray_empty)
  have pre_empty: "take 2 ?r = ''!!'' \<or> take 2 ?r = ''-!'' \<Longrightarrow> pre = []"
    using parts(5) by (simp add: resolveRequestArray_empty)
  have bangbang: "take 2 ?r = ''!!'' \<longrightarrow> loaders cd = inl"
    using parts(6) post_empty normal_empty pre_empty
    by (cases "createdMatchResource cd") auto
  have dashbang: "take 2 ?r = ''-!'' \<longrightarrow> loaders cd = post @ inl"
    using parts(6) normal_empty pre_empty
    by (cases "createdMatchResource cd") auto
  have bang: "take 1 ?r = ''!'' \<and> take 2 ?r \<noteq> ''!!'' \<longrightarrow> loaders cd = post @ inl @ pre"
    using parts(6) normal_empty
    by (cases "createdMatchResource cd") auto
  have boundary: "req = ''!!loader!./file.js'' \<longrightarrow>
           (\<exists>path l. loaderResolver env ci ctx ''loader'' = Inr path
              \<and> loaders cd = [l] \<and> loader l = loader (identToLoaderRequest path))"
  proof
    assume req: "req = ''!!loader!./file.js''"
    have r: "take 2 ?r = ''!!''" using req by (simp add: parse_boundary)
    have "snd (resolveRequestArray (loaderResolver env) ci ctx
        [\<lparr>loader = ''loader'', options = VUndefined, ident = None\<rparr>]) = Inr inl0"
      using parts(1) req by (simp add: parse_boundary)
    from resolveRequestArray_single [OF this]
    obtain path y where y: "loaderResolver env ci ctx ''loader'' = Inr path" "inl0 = [y]"
      "loader y = loader (identToLoaderRequest path)"
      by auto
    have "map loader inl = map loader inl0"
      using parts(2) by (rule translateIdents_loaders)
    then obtain l where "inl = [l]" "loader l = loader y" using y(2) by auto
    then show "\<exists>path l. loaderResolver env ci ctx ''loader'' = Inr path
              \<and> loaders cd = [l] \<and> loader l = loader (identToLoaderRequest path)"
      using y bangbang r by auto
  qed
  show ?thesis
    using parts bangbang dashbang bang boundary by blast
qed

theorem resolveHook_prefixes_witness:
  "\<exists>cd f'. resolveHook exampleEnvironment newFactory exampleContextInfo ''/ctx''
             ''!!loader!./file.js'' = (Called (Result (Created cd)), f')
     \<and> map loader (loaders cd) = [''/l/loader'']"
proof -
  have "loadersOf (resolveHook exampleEnvironment newFactory exampleContextInfo ''/ctx''
      ''!!loader!./file.js'') = Some [''/l/loader'']"
    by code_simp
  then obtain cd where "fst (resolveHook exampleEnvironment newFactory exampleContextInfo
      ''/ctx'' ''!!loader!./file.js'') = Called (Result (Created cd))"
    by (auto simp: loadersOf_def split: called.splits outcome.splits resolveResult.splits)
  then obtain f' where run: "resolveHook exampleEnvironment newFactory exampleContextInfo
      ''/ctx'' ''!!loader!./file.js'' = (Called (Result (Created cd)), f')"
    by (cases "resolveHook exampleEnvironment newFactory exampleContextInfo
      ''/ctx'' ''!!loader!./file.js''") simp
  from resolveHook_prefixes [OF run]
  obtain path l where l: "loaderResolver exampleEnvironment exampleContextInfo ''/ctx''
      ''loader'' = Inr path" "loaders cd = [l]" "loader l = loader (identToLoaderRequest path)"
    by blast
  then have "loader l = ''/l/loader''"
    by (auto simp: exampleEnvironment_def identToLoaderRequest_def)
  then show ?thesis using run l(2) by auto
qed


section \<open>Properties of \<open>Compiler\<close>\<close>

subsection \<open>\<open>run\<close> and \<open>watch\<close>\<close>


lemma doneStats_append: "doneStats (xs @ ys) = doneStats xs @ doneStats ys"
  by (induction xs rule: doneStats.induct) simp_all





text \<open>
  C4. If \<open>run\<close> or \<open>watch\<close> is called with a callback while the running flag is set, no
  compilation is started and nothing is queued: the only event is the invocation of the
  callback with a \<open>ConcurrentCompilationError\<close> and no stats, and the compiler's state is
  unchanged.
\<close>

theorem run_watch_concurrent:
  assumes "running c"
  shows "run c True out = Inr (c, [Callback (Some ConcurrentCompilationError) None])
     \<and> watch c True = Inr (c, [Callback (Some ConcurrentCompilationError) None])"
  using assms by (simp add: run_def watch_def)

theorem run_watch_concurrent_witness:
  "running (idleCompiler\<lparr>running := True\<rparr>)
   \<and> run (idleCompiler\<lparr>running := True\<rparr>) True exampleRun
       = Inr (idleCompiler\<lparr>running := True\<rparr>,
              [Callback (Some ConcurrentCompilationError) None])
   \<and> watch (idleCompiler\<lparr>running := True\<rparr>) True
       = Inr (idleCompiler\<lparr>running := True\<rparr>,
              [Callback (Some ConcurrentCompilationError) None])"
proof -
  have r: "running (idleCompiler\<lparr>running := True\<rparr>)" by simp
  from run_watch_concurrent [OF r, of exampleRun] r show ?thesis by simp
qed





end
